theory Spec2Isabelle
  imports Main "HOL-Library.Word"
begin

unbundle bit_operations_syntax

section \<open>Python values used by \<open>bmpstat.py\<close>\<close>

text \<open>
  \<open>self.raw_image\<close> is a \<open>bytearray\<close>: a mutable sequence of integers in
  \<open>range(256)\<close>. It is the only state of a \<open>BMPstat\<close> object, so the object is
  modelled by its buffer. All other numbers are Python's unbounded integers.
\<close>

type_synonym byte = "8 word"
type_synonym buffer = "byte list"

text \<open>
  The exceptions the module can raise: its own \<open>ValueNotInExcludeEnd(message, x, start, end)\<close>,
  the \<open>ValueError\<close> of \<open>set_payload\<close>, of a negative shift count and of storing a value
  outside \<open>range(256)\<close> into a bytearray, and the \<open>IndexError\<close> of indexing a bytearray
  out of range (its message, which depends on the size of the index, is not kept).
\<close>

datatype error =
    ValueNotInExcludeEnd string int int int
  | ValueError string
  | IndexError

text \<open>\<open>str(k)\<close> for an integer, as the f-strings of \<open>get_pixel_offset\<close> format it.\<close>

definition digit_char :: "nat \<Rightarrow> char" where
  "digit_char d = char_of (48 + d)"

function str_nat :: "nat \<Rightarrow> string" where
  "str_nat n = (if n < 10 then [digit_char n] else str_nat (n div 10) @ [digit_char (n mod 10)])"
  by pat_completeness auto
termination
  by (relation "measure (\<lambda>n. n)") auto

declare str_nat.simps [simp del]

definition str_int :: "int \<Rightarrow> string" where
  "str_int k = (if k < 0 then CHR ''-'' # str_nat (nat (- k)) else str_nat (nat k))"

text \<open>
  A slice bound of \<open>xs[a:b]\<close> for a sequence of length \<open>n\<close>: a negative bound counts
  from the end, and every bound is clamped into \<open>[0, n]\<close>. Slicing never raises.
\<close>

definition slice_bound :: "nat \<Rightarrow> int \<Rightarrow> nat" where
  "slice_bound n a = (if a < 0 then nat (max 0 (a + int n)) else min (nat a) n)"

definition py_slice :: "'a list \<Rightarrow> int \<Rightarrow> int \<Rightarrow> 'a list" where
  "py_slice xs a b =
     (let lo = slice_bound (length xs) a; hi = slice_bound (length xs) b
      in take (hi - lo) (drop lo xs))"

text \<open>
  The slice assignment \<open>xs[a:b] = ys\<close>: the slice is removed and \<open>ys\<close> is put in its
  place, whatever the two lengths are.
\<close>

definition py_slice_assign :: "'a list \<Rightarrow> int \<Rightarrow> int \<Rightarrow> 'a list \<Rightarrow> 'a list" where
  "py_slice_assign xs a b ys =
     (let lo = slice_bound (length xs) a; hi = slice_bound (length xs) b
      in take lo xs @ ys @ drop (max lo hi) xs)"

text \<open>
  The position \<open>xs[k]\<close> denotes in a sequence of length \<open>n\<close>: a negative index counts
  from the end; \<open>None\<close> is the IndexError.
\<close>

definition py_index :: "nat \<Rightarrow> int \<Rightarrow> nat option" where
  "py_index n k =
     (if 0 \<le> k \<and> k < int n then Some (nat k)
      else if - int n \<le> k \<and> k < 0 then Some (nat (k + int n))
      else None)"

text \<open>\<open>int.from_bytes(bs, byteorder='little')\<close>, unsigned (\<open>signed\<close> defaults to False);
  the empty sequence gives 0.\<close>

fun from_bytes_little :: "byte list \<Rightarrow> int" where
  "from_bytes_little [] = 0"
| "from_bytes_little (b # bs) = uint b + 256 * from_bytes_little bs"

section \<open>Header reader\<close>

definition get_offset :: "buffer \<Rightarrow> int" where
  "get_offset raw_image = from_bytes_little (py_slice raw_image 10 14)"

definition get_size :: "buffer \<Rightarrow> int \<times> int" where
  "get_size raw_image =
     (let width = from_bytes_little (py_slice raw_image 18 22);
          height = from_bytes_little (py_slice raw_image 22 26)
      in (width, height))"

definition get_bpp :: "buffer \<Rightarrow> int" where
  "get_bpp raw_image = from_bytes_little (py_slice raw_image 28 30)"

section \<open>Geometry\<close>

definition get_Bpp :: "buffer \<Rightarrow> int" where
  "get_Bpp raw_image = (let bpp = get_bpp raw_image in max 1 (bpp div 8))"

definition get_rowsize_bpp :: "buffer \<Rightarrow> int" where
  "get_rowsize_bpp raw_image =
     (let width = fst (get_size raw_image); bpp = get_bpp raw_image in bpp * width)"

text \<open>
  \<open>math.ceil(row_size_bpp / 8)\<close>. The division is Python's true division on floats; the
  operand is below \<open>2 ^ 48\<close> (lemma \<open>get_rowsize_bpp_range\<close>), so it is represented exactly,
  its quotient by 8 is exact, and the ceiling is the integer ceiling.
\<close>

definition ceil_div8 :: "int \<Rightarrow> int" where
  "ceil_div8 x = - ((- x) div 8)"

definition get_rowsize :: "buffer \<Rightarrow> int" where
  "get_rowsize raw_image = (let row_size_bpp = get_rowsize_bpp raw_image in ceil_div8 row_size_bpp)"

definition get_padding :: "buffer \<Rightarrow> int" where
  "get_padding raw_image =
     (let width = fst (get_size raw_image);
          Bpp = get_Bpp raw_image;
          row_padding = 4 - (width * Bpp) mod 4
      in row_padding mod 4)"

definition get_eff_rowsize :: "buffer \<Rightarrow> int" where
  "get_eff_rowsize raw_image = get_rowsize raw_image + get_padding raw_image"

definition get_payload_size :: "buffer \<Rightarrow> int" where
  "get_payload_size raw_image =
     (let rowsize = get_eff_rowsize raw_image; height = snd (get_size raw_image)
      in height * rowsize)"

definition get_payload :: "buffer \<Rightarrow> buffer" where
  "get_payload raw_image =
     (let start = get_offset raw_image; payload_size = get_payload_size raw_image
      in py_slice raw_image start (start + payload_size))"

text \<open>\<open>set_payload\<close> returns the outcome of the call and the buffer it leaves.\<close>

definition set_payload :: "buffer \<Rightarrow> byte list \<Rightarrow> (error + unit) \<times> buffer" where
  "set_payload raw_image payload =
     (let start = get_offset raw_image; payload_size = get_payload_size raw_image
      in if int (length payload) \<noteq> payload_size then (Inl (ValueError ''Error''), raw_image)
         else (Inr (), py_slice_assign raw_image start (start + payload_size) payload))"

section \<open>Bounds checks\<close>

definition check_width_w_padding :: "buffer \<Rightarrow> int \<Rightarrow> error + unit" where
  "check_width_w_padding raw_image w =
     (let width = fst (get_size raw_image);
          padding = (if get_payload_size raw_image > 0 then 1 else 0)
      in if w < 0 \<or> w \<ge> width + padding
         then Inl (ValueNotInExcludeEnd ''Width value out of bounds, the padding is included''
                     w 0 (width + padding))
         else Inr ())"

definition check_width :: "buffer \<Rightarrow> int \<Rightarrow> error + unit" where
  "check_width raw_image w =
     (let width = fst (get_size raw_image)
      in if w < 0 \<or> w \<ge> width
         then Inl (ValueNotInExcludeEnd ''Width value out of bounds'' w 0 width)
         else Inr ())"

definition check_height :: "buffer \<Rightarrow> int \<Rightarrow> error + unit" where
  "check_height raw_image h =
     (let height = snd (get_size raw_image)
      in if h < 0 \<or> h \<ge> height
         then Inl (ValueNotInExcludeEnd ''Height value out of bounds'' h 0 height)
         else Inr ())"

definition check_layer :: "buffer \<Rightarrow> int \<Rightarrow> error + unit" where
  "check_layer raw_image layer =
     (let Bpp = get_Bpp raw_image
      in if layer \<ge> Bpp
         then Inl (ValueNotInExcludeEnd ''Layer value out of bounds'' layer 0 Bpp)
         else Inr ())"

definition check_sublayer :: "buffer \<Rightarrow> int \<Rightarrow> error + unit" where
  "check_sublayer raw_image sublayer =
     (let bpp = get_bpp raw_image
      in if sublayer \<ge> bpp
         then Inl (ValueNotInExcludeEnd ''Sublayer value out of bounds'' sublayer 0 bpp)
         else Inr ())"

section \<open>Pixel addressing and bit mutation\<close>

definition get_pixel_offset :: "buffer \<Rightarrow> int \<Rightarrow> int \<Rightarrow> error + int" where
  "get_pixel_offset raw_image i j =
     (let (width, height) = get_size raw_image
      in if i < 0 \<or> i \<ge> width
         then Inl (ValueNotInExcludeEnd
                     (''Pixel('' @ str_int i @ '','' @ str_int j @ '') the i is out of range'')
                     i 0 width)
         else if j < 0 \<or> j \<ge> height
         then Inl (ValueNotInExcludeEnd
                     (''Pixel('' @ str_int i @ '','' @ str_int j @ '') the j is out of range'')
                     j 0 height)
         else Inr (get_offset raw_image + j * get_eff_rowsize raw_image + i * get_Bpp raw_image))"

text \<open>
  The \<open>bitmask\<close> argument of \<open>apply_bitmask\<close> is a closure over \<open>self\<close> called with the
  byte offset: a function from the offset and the buffer to the outcome and the buffer it
  leaves.
\<close>

type_synonym bitmask = "int \<Rightarrow> buffer \<Rightarrow> (error + unit) \<times> buffer"

definition apply_bitmask :: "buffer \<Rightarrow> int \<Rightarrow> int \<Rightarrow> int \<Rightarrow> bitmask \<Rightarrow> (error + unit) \<times> buffer" where
  "apply_bitmask raw_image i j layer bitmask =
     (case check_width raw_image i of Inl e \<Rightarrow> (Inl e, raw_image) | Inr _ \<Rightarrow>
      case check_height raw_image j of Inl e \<Rightarrow> (Inl e, raw_image) | Inr _ \<Rightarrow>
      case check_layer raw_image layer of Inl e \<Rightarrow> (Inl e, raw_image) | Inr _ \<Rightarrow>
      case get_pixel_offset raw_image i j of Inl e \<Rightarrow> (Inl e, raw_image) | Inr p \<Rightarrow>
        (let offset = p + layer in bitmask offset raw_image))"

text \<open>
  The closure of \<open>set_one\<close>: \<open>mask = 1 << sublayer\<close> raises ValueError on a negative
  count; \<open>self.raw_image[offset] |= mask\<close> reads the byte (IndexError out of range),
  ors the two integers and stores the result (ValueError outside \<open>range(256)\<close>).
\<close>

definition bitmask_one :: "int \<Rightarrow> bitmask" where
  "bitmask_one sublayer offset raw_image =
     (if sublayer < 0 then (Inl (ValueError ''negative shift count''), raw_image)
      else let mask = push_bit (nat sublayer) (1::int) in
        case py_index (length raw_image) offset of
          None \<Rightarrow> (Inl IndexError, raw_image)
        | Some k \<Rightarrow>
            (let v = uint (raw_image ! k) OR mask
             in if 0 \<le> v \<and> v < 256 then (Inr (), raw_image[k := word_of_int v])
                else (Inl (ValueError ''byte must be in range(0, 256)''), raw_image)))"

text \<open>The closure of \<open>set_zero\<close>: \<open>mask = 0xFF ^ (1 << sublayer)\<close>, then
  \<open>self.raw_image[offset] &= mask\<close>.\<close>

definition bitmask_zero :: "int \<Rightarrow> bitmask" where
  "bitmask_zero sublayer offset raw_image =
     (if sublayer < 0 then (Inl (ValueError ''negative shift count''), raw_image)
      else let mask = (255::int) XOR push_bit (nat sublayer) 1 in
        case py_index (length raw_image) offset of
          None \<Rightarrow> (Inl IndexError, raw_image)
        | Some k \<Rightarrow>
            (let v = uint (raw_image ! k) AND mask
             in if 0 \<le> v \<and> v < 256 then (Inr (), raw_image[k := word_of_int v])
                else (Inl (ValueError ''byte must be in range(0, 256)''), raw_image)))"

definition set_one :: "buffer \<Rightarrow> int \<Rightarrow> int \<Rightarrow> int \<Rightarrow> int \<Rightarrow> (error + unit) \<times> buffer" where
  "set_one raw_image i j layer sublayer =
     (case check_sublayer raw_image sublayer of Inl e \<Rightarrow> (Inl e, raw_image) | Inr _ \<Rightarrow>
        apply_bitmask raw_image i j layer (bitmask_one sublayer))"

definition set_zero :: "buffer \<Rightarrow> int \<Rightarrow> int \<Rightarrow> int \<Rightarrow> int \<Rightarrow> (error + unit) \<times> buffer" where
  "set_zero raw_image i j layer sublayer =
     (case check_sublayer raw_image sublayer of Inl e \<Rightarrow> (Inl e, raw_image) | Inr _ \<Rightarrow>
        apply_bitmask raw_image i j layer (bitmask_zero sublayer))"

section \<open>Properties stated about the code\<close>

text \<open>The byte a mutation addresses: the position that \<open>get_pixel_offset(i, j) + layer\<close>
  denotes in the buffer, if the coordinates are accepted and the index is in range.\<close>

definition target_index :: "buffer \<Rightarrow> int \<Rightarrow> int \<Rightarrow> int \<Rightarrow> nat option" where
  "target_index raw_image i j layer =
     (case get_pixel_offset raw_image i j of
        Inl e \<Rightarrow> None
      | Inr p \<Rightarrow> py_index (length raw_image) (p + layer))"

text \<open>Position \<open>k\<close> is the only one written between two buffers: same length, and every
  other byte is the same.\<close>

definition only_byte_written :: "nat \<Rightarrow> buffer \<Rightarrow> buffer \<Rightarrow> bool" where
  "only_byte_written k raw raw' \<longleftrightarrow>
     k < length raw \<and> length raw' = length raw \<and>
     (\<forall>n < length raw. n \<noteq> k \<longrightarrow> raw' ! n = raw ! n)"

text \<open>A bitmask closure that, when it returns, has written only the byte its offset
  denotes.\<close>

definition single_byte_bitmask :: "bitmask \<Rightarrow> bool" where
  "single_byte_bitmask bitmask \<longleftrightarrow>
     (\<forall>offset raw raw'. bitmask offset raw = (Inr (), raw') \<longrightarrow>
        (\<exists>k. py_index (length raw) offset = Some k \<and> only_byte_written k raw raw'))"

text \<open>Four bytes read as a signed 32-bit little-endian integer, the reading the docstring of
  \<open>get_size\<close> and the BMP format give to width and height.\<close>

definition signed32_little :: "byte list \<Rightarrow> int" where
  "signed32_little bs = sint (word_of_int (from_bytes_little bs) :: 32 word)"

text \<open>The value of byte \<open>n\<close> of the buffer, counted as 0 when the buffer does not hold
  it.\<close>

definition byte_at :: "buffer \<Rightarrow> nat \<Rightarrow> int" where
  "byte_at raw n = (if n < length raw then uint (raw ! n) else 0)"

section \<open>Example buffers\<close>

text \<open>A 1x1 image, 24 bits per pixel: 54 header bytes, then one row of 3 bytes and 1 byte
  of padding.\<close>

definition bmp_1x1_24 :: buffer where
  "bmp_1x1_24 =
     [66,77, 58,0,0,0, 0,0,0,0, 54,0,0,0, 40,0,0,0, 1,0,0,0, 1,0,0,0, 1,0, 24,0]
     @ replicate 24 0 @ [10,20,30,0]"

text \<open>The scenario of the specification: payload offset 54, width 4, height 2, 24 bits per
  pixel, 24 bytes of pixels.\<close>

definition bmp_4x2_24 :: buffer where
  "bmp_4x2_24 =
     [66,77, 78,0,0,0, 0,0,0,0, 54,0,0,0, 40,0,0,0, 4,0,0,0, 2,0,0,0, 1,0, 24,0]
     @ replicate 24 0 @ replicate 24 255"

text \<open>Width 4, height 2 and a bit count of 0 (the value the format uses for embedded JPEG
  or PNG data).\<close>

definition bmp_4x2_0 :: buffer where
  "bmp_4x2_0 =
     [66,77, 54,0,0,0, 0,0,0,0, 54,0,0,0, 40,0,0,0, 4,0,0,0, 2,0,0,0, 1,0, 0,0]
     @ replicate 24 0"

text \<open>Width 0, height 1, 24 bits per pixel.\<close>

definition bmp_0x1_24 :: buffer where
  "bmp_0x1_24 =
     [66,77, 54,0,0,0, 0,0,0,0, 54,0,0,0, 40,0,0,0, 0,0,0,0, 1,0,0,0, 1,0, 24,0]
     @ replicate 24 0"

text \<open>A top-down 1x1 image: the height field holds -1 (bytes FF FF FF FF).\<close>

definition bmp_top_down :: buffer where
  "bmp_top_down =
     [66,77, 58,0,0,0, 0,0,0,0, 54,0,0,0, 40,0,0,0, 1,0,0,0, 255,255,255,255, 1,0, 24,0]
     @ replicate 24 0 @ [10,20,30,0]"

text \<open>A 1x1 image with 4 bits per pixel: one row of 1 byte and 3 bytes of padding.\<close>

definition bmp_1x1_4 :: buffer where
  "bmp_1x1_4 =
     [66,77, 58,0,0,0, 0,0,0,0, 54,0,0,0, 40,0,0,0, 1,0,0,0, 1,0,0,0, 1,0, 4,0]
     @ replicate 24 0 @ [16,0,0,0]"

text \<open>The first 29 bytes of the 1x1 image: the second byte of the bit count is missing.\<close>

definition bmp_short :: buffer where
  "bmp_short = take 29 bmp_1x1_24"

text \<open>The first 40 bytes of the 1x1 image: the header announces pixels at offset 54 that
  the buffer does not hold.\<close>

definition bmp_truncated :: buffer where
  "bmp_truncated = take 40 bmp_1x1_24"

section \<open>Ranges of the header fields and of the geometry\<close>

lemma from_bytes_little_nonneg: "0 \<le> from_bytes_little bs"
  by (induction bs) simp_all

lemma from_bytes_little_less: "from_bytes_little bs < 256 ^ length bs"
proof (induction bs)
  case Nil
  show ?case by simp
next
  case (Cons b bs)
  have "uint b < 256" using uint_bounded [of b] by simp
  with Cons show ?case by simp
qed

lemma py_slice_nat:
  "a \<le> b \<Longrightarrow> py_slice xs (int a) (int b) = take (b - a) (drop a xs)"
  by (auto simp: py_slice_def slice_bound_def Let_def min_def)

lemma py_slice_header:
  "py_slice xs 10 14 = take 4 (drop 10 xs)"
  "py_slice xs 18 22 = take 4 (drop 18 xs)"
  "py_slice xs 22 26 = take 4 (drop 22 xs)"
  "py_slice xs 28 30 = take 2 (drop 28 xs)"
  using py_slice_nat [of 10 14 xs] py_slice_nat [of 18 22 xs]
        py_slice_nat [of 22 26 xs] py_slice_nat [of 28 30 xs]
  by simp_all

lemma from_bytes_little_take:
  "from_bytes_little (take n xs) < 256 ^ n"
proof -
  have "from_bytes_little (take n xs) < 256 ^ length (take n xs)"
    by (rule from_bytes_little_less)
  also have "\<dots> \<le> (256::int) ^ n"
    by (rule power_increasing) simp_all
  finally show ?thesis .
qed

lemma get_offset_range: "0 \<le> get_offset raw" "get_offset raw < 2 ^ 32"
  using from_bytes_little_take [of 4 "drop 10 raw"]
  by (simp_all add: get_offset_def py_slice_header from_bytes_little_nonneg)

lemma width_range: "0 \<le> fst (get_size raw)" "fst (get_size raw) < 2 ^ 32"
  using from_bytes_little_take [of 4 "drop 18 raw"]
  by (simp_all add: get_size_def py_slice_header from_bytes_little_nonneg Let_def)

lemma height_range: "0 \<le> snd (get_size raw)" "snd (get_size raw) < 2 ^ 32"
  using from_bytes_little_take [of 4 "drop 22 raw"]
  by (simp_all add: get_size_def py_slice_header from_bytes_little_nonneg Let_def)

lemma get_bpp_range: "0 \<le> get_bpp raw" "get_bpp raw < 2 ^ 16"
  using from_bytes_little_take [of 2 "drop 28 raw"]
  by (simp_all add: get_bpp_def py_slice_header from_bytes_little_nonneg)

lemma get_Bpp_pos: "1 \<le> get_Bpp raw"
  by (simp add: get_Bpp_def Let_def)

lemma get_rowsize_bpp_range: "0 \<le> get_rowsize_bpp raw" "get_rowsize_bpp raw < 2 ^ 48"
proof -
  let ?w = "fst (get_size raw)" and ?b = "get_bpp raw"
  show "0 \<le> get_rowsize_bpp raw"
    using width_range(1) [of raw] get_bpp_range(1) [of raw]
    by (simp add: get_rowsize_bpp_def Let_def)
  have "?b * ?w \<le> 2 ^ 16 * 2 ^ 32"
    using width_range [of raw] get_bpp_range [of raw]
    by (intro mult_mono) simp_all
  moreover have "?b * ?w \<noteq> 2 ^ 16 * 2 ^ 32"
  proof
    assume eq: "?b * ?w = 2 ^ 16 * 2 ^ 32"
    have "?b * ?w \<le> (2 ^ 16 - 1) * 2 ^ 32"
      using width_range [of raw] get_bpp_range [of raw]
      by (intro mult_mono) simp_all
    with eq show False by simp
  qed
  ultimately show "get_rowsize_bpp raw < 2 ^ 48"
    by (simp add: get_rowsize_bpp_def Let_def)
qed

lemma get_padding_range: "0 \<le> get_padding raw" "get_padding raw < 4"
  by (simp_all add: get_padding_def Let_def)

lemma get_rowsize_nonneg: "0 \<le> get_rowsize raw"
  using get_rowsize_bpp_range(1) [of raw]
  by (simp add: get_rowsize_def ceil_div8_def Let_def)

lemma get_eff_rowsize_nonneg: "0 \<le> get_eff_rowsize raw"
  using get_rowsize_nonneg [of raw] get_padding_range(1) [of raw]
  by (simp add: get_eff_rowsize_def)

text \<open>
  C1. For every buffer, \<open>get_padding\<close> returns one of 0, 1, 2, 3, the row bytes
  \<open>width * Bpp\<close> plus the padding are a multiple of 4, and the padding is 0 whenever the
  row bytes already are a multiple of 4.
\<close>

theorem get_padding_aligns:
  "get_padding raw \<in> {0, 1, 2, 3}
   \<and> (fst (get_size raw) * get_Bpp raw + get_padding raw) mod 4 = 0
   \<and> ((fst (get_size raw) * get_Bpp raw) mod 4 = 0 \<longrightarrow> get_padding raw = 0)"
proof -
  define x where "x = fst (get_size raw) * get_Bpp raw"
  have p: "get_padding raw = (4 - x mod 4) mod 4"
    by (simp add: get_padding_def Let_def x_def)
  have "(4 - x mod 4) mod 4 \<in> {0, 1, 2, 3}" by simp presburger
  moreover have "(x + (4 - x mod 4) mod 4) mod 4 = 0" by presburger
  moreover have "x mod 4 = 0 \<longrightarrow> (4 - x mod 4) mod 4 = 0" by simp
  ultimately show ?thesis unfolding p x_def by blast
qed

theorem get_padding_aligns_witness:
  "(fst (get_size bmp_4x2_24) * get_Bpp bmp_4x2_24) mod 4 = 0 \<and> get_padding bmp_4x2_24 = 0"
proof -
  have h: "(fst (get_size bmp_4x2_24) * get_Bpp bmp_4x2_24) mod 4 = 0" by code_simp
  with get_padding_aligns [of bmp_4x2_24] show ?thesis by blast
qed

section \<open>The bounds checks\<close>

lemma check_width_iff:
  "check_width raw w = Inr () \<longleftrightarrow> 0 \<le> w \<and> w < fst (get_size raw)"
  by (auto simp: check_width_def Let_def)

lemma check_height_iff:
  "check_height raw h = Inr () \<longleftrightarrow> 0 \<le> h \<and> h < snd (get_size raw)"
  by (auto simp: check_height_def Let_def)

lemma check_layer_iff:
  "check_layer raw layer = Inr () \<longleftrightarrow> layer < get_Bpp raw"
  by (auto simp: check_layer_def Let_def)

lemma check_sublayer_iff:
  "check_sublayer raw sublayer = Inr () \<longleftrightarrow> sublayer < get_bpp raw"
  by (auto simp: check_sublayer_def Let_def)

lemma get_pixel_offset_in_bounds:
  assumes "0 \<le> i" "i < fst (get_size raw)" "0 \<le> j" "j < snd (get_size raw)"
  shows "get_pixel_offset raw i j =
           Inr (get_offset raw + j * get_eff_rowsize raw + i * get_Bpp raw)"
  using assms by (simp add: get_pixel_offset_def split_beta Let_def)

lemma get_pixel_offset_Inr_iff:
  "(\<exists>p. get_pixel_offset raw i j = Inr p) \<longleftrightarrow>
     0 \<le> i \<and> i < fst (get_size raw) \<and> 0 \<le> j \<and> j < snd (get_size raw)"
  by (auto simp: get_pixel_offset_def split_beta Let_def)

lemma ceil_div8_pos: "1 \<le> x \<Longrightarrow> 1 \<le> ceil_div8 x"
  unfolding ceil_div8_def by linarith

lemma get_eff_rowsize_pos:
  assumes "0 < fst (get_size raw)" "0 < get_bpp raw"
  shows "0 < get_eff_rowsize raw"
proof -
  have "0 < get_bpp raw * fst (get_size raw)"
    using assms by simp
  then have "1 \<le> get_rowsize raw"
    by (simp add: get_rowsize_def get_rowsize_bpp_def Let_def ceil_div8_pos)
  with get_padding_range(1) [of raw] show ?thesis
    by (simp add: get_eff_rowsize_def)
qed

section \<open>Row stride\<close>

text \<open>
  C2, as the code has it. For an in-bounds column and two in-bounds rows \<open>j < j'\<close>, both
  offsets are computed and differ by \<open>(j' - j) * get_eff_rowsize()\<close>, so by exactly
  \<open>get_eff_rowsize()\<close> for consecutive rows. The offset never decreases with the row; it
  increases strictly exactly when the effective row size is positive, which it is whenever
  the bit count of the header is not 0.
\<close>

theorem pixel_offset_row_stride:
  assumes "0 \<le> i" "i < fst (get_size raw)" "0 \<le> j" "j < j'" "j' < snd (get_size raw)"
  shows "\<exists>a b. get_pixel_offset raw i j = Inr a \<and> get_pixel_offset raw i j' = Inr b
           \<and> b - a = (j' - j) * get_eff_rowsize raw
           \<and> (j' = j + 1 \<longrightarrow> b - a = get_eff_rowsize raw)
           \<and> a \<le> b
           \<and> (a < b \<longleftrightarrow> 0 < get_eff_rowsize raw)
           \<and> (0 < get_bpp raw \<longrightarrow> a < b)"
proof -
  define e where "e = get_eff_rowsize raw"
  define a where "a = get_offset raw + j * e + i * get_Bpp raw"
  define b where "b = get_offset raw + j' * e + i * get_Bpp raw"
  have ga: "get_pixel_offset raw i j = Inr a"
    using assms by (simp add: get_pixel_offset_in_bounds a_def e_def)
  have gb: "get_pixel_offset raw i j' = Inr b"
    using assms by (simp add: get_pixel_offset_in_bounds b_def e_def)
  have e0: "0 \<le> e"
    by (simp add: e_def get_eff_rowsize_nonneg)
  have d: "b - a = (j' - j) * e"
    by (simp add: a_def b_def algebra_simps)
  have pos: "0 < j' - j"
    using assms by simp
  have mono: "a \<le> b"
  proof -
    have "0 \<le> (j' - j) * e" using pos e0 by simp
    with d show ?thesis by simp
  qed
  have strict: "a < b \<longleftrightarrow> 0 < e"
  proof -
    have "0 < (j' - j) * e \<longleftrightarrow> 0 < e"
      using pos by (simp add: zero_less_mult_iff)
    with d show ?thesis by linarith
  qed
  have bpp: "0 < get_bpp raw \<longrightarrow> a < b"
  proof
    assume "0 < get_bpp raw"
    moreover have "0 < fst (get_size raw)" using assms by simp
    ultimately have "0 < e" unfolding e_def by (rule get_eff_rowsize_pos [rotated])
    with strict show "a < b" by simp
  qed
  have one: "j' = j + 1 \<longrightarrow> b - a = e"
    using d by simp
  from ga gb d one mono strict bpp show ?thesis
    unfolding e_def by blast
qed

theorem pixel_offset_row_stride_witness:
  "get_pixel_offset bmp_4x2_24 2 0 = Inr 60 \<and> get_pixel_offset bmp_4x2_24 2 1 = Inr 72
   \<and> get_eff_rowsize bmp_4x2_24 = 12"
proof -
  have h: "(0::int) \<le> 2" "2 < fst (get_size bmp_4x2_24)" "(0::int) \<le> 0" "(0::int) < 1"
      "1 < snd (get_size bmp_4x2_24)"
    by code_simp+
  have a: "get_pixel_offset bmp_4x2_24 2 0 = Inr 60" by code_simp
  from pixel_offset_row_stride [OF h] a
  obtain b where b: "get_pixel_offset bmp_4x2_24 2 1 = Inr b"
    and d: "b - 60 = get_eff_rowsize bmp_4x2_24"
    by auto
  have "get_pixel_offset bmp_4x2_24 2 1 = Inr 72" by code_simp
  with b have "b = 72" by simp
  with a b d show ?thesis by simp
qed

text \<open>
  On a header with width 4, height 2 and a bit count of 0, column 0 and rows 0 and 1 are in
  bounds, the effective row size is 0 and both rows have the same offset.
\<close>

theorem pixel_offset_not_strict_counterexample:
  "check_width bmp_4x2_0 0 = Inr () \<and> check_height bmp_4x2_0 0 = Inr ()
   \<and> check_height bmp_4x2_0 1 = Inr ()
   \<and> get_pixel_offset bmp_4x2_0 0 0 = Inr 54 \<and> get_pixel_offset bmp_4x2_0 0 1 = Inr 54"
  by code_simp

section \<open>Reading the header of a short buffer\<close>

lemma from_bytes_little_append_zeros:
  "from_bytes_little (bs @ replicate n 0) = from_bytes_little bs"
proof (induction bs)
  case Nil
  show ?case by (induction n) simp_all
next
  case (Cons b bs)
  then show ?case by simp
qed

lemma field_zero_extended:
  "from_bytes_little (take m (drop a (raw @ replicate n 0))) =
   from_bytes_little (take m (drop a raw))"
proof -
  have "take m (drop a (raw @ replicate n 0)) =
        take m (drop a raw) @ replicate (min (m - (length raw - a)) (n - (a - length raw))) 0"
    by simp
  then show ?thesis
    by (simp only: from_bytes_little_append_zeros)
qed

lemma header_zero_extended:
  "get_offset (raw @ replicate n 0) = get_offset raw"
  "get_size (raw @ replicate n 0) = get_size raw"
  "get_bpp (raw @ replicate n 0) = get_bpp raw"
  by (simp_all only: get_offset_def get_size_def get_bpp_def py_slice_header
        field_zero_extended)

lemma from_bytes_field:
  "from_bytes_little (take (Suc n) (drop a raw)) =
     byte_at raw a + 256 * from_bytes_little (take n (drop (Suc a) raw))"
proof (cases "a < length raw")
  case True
  then have "drop a raw = raw ! a # drop (Suc a) raw"
    by (simp add: Cons_nth_drop_Suc)
  with True show ?thesis by (simp add: byte_at_def)
next
  case False
  then show ?thesis by (simp add: byte_at_def)
qed

lemma from_bytes_field2:
  "from_bytes_little (take 2 (drop a raw)) = byte_at raw a + 256 * byte_at raw (a + 1)"
proof -
  have e: "take 2 (drop a raw) = take (Suc (Suc 0)) (drop a raw)"
    by (simp add: numeral_eq_Suc)
  have "from_bytes_little (take 2 (drop a raw)) =
      byte_at raw a + 256 * (byte_at raw (Suc a)
        + 256 * from_bytes_little (take 0 (drop (Suc (Suc a)) raw)))"
    by (simp only: e from_bytes_field)
  then show ?thesis by simp
qed

lemma from_bytes_field4:
  "from_bytes_little (take 4 (drop a raw)) =
     byte_at raw a + 256 * byte_at raw (a + 1) + 65536 * byte_at raw (a + 2)
     + 16777216 * byte_at raw (a + 3)"
proof -
  have e: "take 4 (drop a raw) = take (Suc (Suc (Suc (Suc 0)))) (drop a raw)"
    by (simp add: numeral_eq_Suc)
  have s: "a + 2 = Suc (Suc a)" "a + 3 = Suc (Suc (Suc a))"
    by simp_all
  have "from_bytes_little (take 4 (drop a raw)) =
      byte_at raw a + 256 * (byte_at raw (Suc a) + 256 * (byte_at raw (Suc (Suc a))
        + 256 * (byte_at raw (Suc (Suc (Suc a)))
        + 256 * from_bytes_little (take 0 (drop (Suc (Suc (Suc (Suc a)))) raw)))))"
    by (simp only: e from_bytes_field)
  then show ?thesis by (simp only: s) simp
qed

text \<open>
  C7, as the code has it. A slice of a bytearray never raises and \<open>int.from_bytes\<close>
  accepts any number of bytes, so no header read fails: on a buffer shorter than 30 bytes
  each read returns the little-endian value of the bytes of its field that the buffer
  holds, a missing byte counting as 0. That is the value the field has once the buffer is
  extended to 30 bytes with zeros, and it is 0 when the buffer holds no byte of the field.
\<close>

theorem header_read_short_buffer:
  assumes "length raw < 30"
  shows "get_offset raw = from_bytes_little (take 4 (drop 10 raw))
       \<and> get_size raw =
           (from_bytes_little (take 4 (drop 18 raw)), from_bytes_little (take 4 (drop 22 raw)))
       \<and> get_bpp raw = from_bytes_little (take 2 (drop 28 raw))
       \<and> get_offset raw =
           byte_at raw 10 + 256 * byte_at raw 11 + 65536 * byte_at raw 12
           + 16777216 * byte_at raw 13
       \<and> get_size raw =
           (byte_at raw 18 + 256 * byte_at raw 19 + 65536 * byte_at raw 20
              + 16777216 * byte_at raw 21,
            byte_at raw 22 + 256 * byte_at raw 23 + 65536 * byte_at raw 24
              + 16777216 * byte_at raw 25)
       \<and> get_bpp raw = byte_at raw 28 + 256 * byte_at raw 29
       \<and> get_offset raw = get_offset (raw @ replicate (30 - length raw) 0)
       \<and> get_size raw = get_size (raw @ replicate (30 - length raw) 0)
       \<and> get_bpp raw = get_bpp (raw @ replicate (30 - length raw) 0)
       \<and> (length raw \<le> 10 \<longrightarrow> get_offset raw = 0)
       \<and> (length raw \<le> 18 \<longrightarrow> get_size raw = (0, 0))
       \<and> (length raw \<le> 28 \<longrightarrow> get_bpp raw = 0)
       \<and> (length raw = 29 \<longrightarrow> get_bpp raw = uint (raw ! 28))"
proof -
  have slices: "get_offset raw = from_bytes_little (take 4 (drop 10 raw))"
    "get_size raw =
       (from_bytes_little (take 4 (drop 18 raw)), from_bytes_little (take 4 (drop 22 raw)))"
    "get_bpp raw = from_bytes_little (take 2 (drop 28 raw))"
    by (simp_all add: get_offset_def get_size_def get_bpp_def py_slice_header)
  have bytes: "get_offset raw =
           byte_at raw 10 + 256 * byte_at raw 11 + 65536 * byte_at raw 12
           + 16777216 * byte_at raw 13"
    "get_size raw =
           (byte_at raw 18 + 256 * byte_at raw 19 + 65536 * byte_at raw 20
              + 16777216 * byte_at raw 21,
            byte_at raw 22 + 256 * byte_at raw 23 + 65536 * byte_at raw 24
              + 16777216 * byte_at raw 25)"
    "get_bpp raw = byte_at raw 28 + 256 * byte_at raw 29"
    unfolding slices by (simp_all add: from_bytes_field4 from_bytes_field2)
  have ext: "get_offset raw = get_offset (raw @ replicate (30 - length raw) 0)"
    "get_size raw = get_size (raw @ replicate (30 - length raw) 0)"
    "get_bpp raw = get_bpp (raw @ replicate (30 - length raw) 0)"
    by (simp_all add: header_zero_extended)
  have none: "length raw \<le> 10 \<longrightarrow> get_offset raw = 0"
    "length raw \<le> 18 \<longrightarrow> get_size raw = (0, 0)"
    "length raw \<le> 28 \<longrightarrow> get_bpp raw = 0"
    unfolding slices by simp_all
  have last: "length raw = 29 \<longrightarrow> get_bpp raw = uint (raw ! 28)"
    unfolding bytes by (simp add: byte_at_def)
  from slices bytes ext none last show ?thesis by (intro conjI)
qed

theorem header_read_short_buffer_witness:
  "length bmp_short < 30
   \<and> get_offset bmp_short = 54 \<and> byte_at bmp_short 10 = 54 \<and> byte_at bmp_short 11 = 0
   \<and> get_size bmp_short = (1, 1)
   \<and> get_bpp bmp_short = 24 \<and> byte_at bmp_short 28 = 24 \<and> byte_at bmp_short 29 = 0
   \<and> get_bpp (bmp_short @ replicate (30 - length bmp_short) 0) = 24"
proof -
  have h: "length bmp_short < 30" by code_simp
  have b: "byte_at bmp_short 10 = 54" "byte_at bmp_short 11 = 0" "byte_at bmp_short 12 = 0"
    "byte_at bmp_short 13 = 0" "byte_at bmp_short 18 = 1" "byte_at bmp_short 19 = 0"
    "byte_at bmp_short 20 = 0" "byte_at bmp_short 21 = 0" "byte_at bmp_short 22 = 1"
    "byte_at bmp_short 23 = 0" "byte_at bmp_short 24 = 0" "byte_at bmp_short 25 = 0"
    "byte_at bmp_short 28 = 24" "byte_at bmp_short 29 = 0"
    by code_simp+
  from header_read_short_buffer [OF h] have
    "get_offset bmp_short =
       byte_at bmp_short 10 + 256 * byte_at bmp_short 11 + 65536 * byte_at bmp_short 12
       + 16777216 * byte_at bmp_short 13"
    "get_size bmp_short =
           (byte_at bmp_short 18 + 256 * byte_at bmp_short 19 + 65536 * byte_at bmp_short 20
              + 16777216 * byte_at bmp_short 21,
            byte_at bmp_short 22 + 256 * byte_at bmp_short 23 + 65536 * byte_at bmp_short 24
              + 16777216 * byte_at bmp_short 25)"
    "get_bpp bmp_short = byte_at bmp_short 28 + 256 * byte_at bmp_short 29"
    "get_bpp bmp_short = get_bpp (bmp_short @ replicate (30 - length bmp_short) 0)"
    by blast+
  with h b show ?thesis by simp
qed

text \<open>
  A buffer of 29 bytes: the bit count is returned from the single byte of its field that is
  there, and the other fields are returned as well. Twelve bytes give the payload offset
  from two of its four bytes, and the empty buffer gives 0.
\<close>

theorem header_read_short_counterexample:
  "length bmp_short = 29 \<and> get_bpp bmp_short = 24 \<and> get_offset bmp_short = 54
   \<and> get_size bmp_short = (1, 1)
   \<and> get_offset (take 12 bmp_1x1_24) = 54 \<and> get_size (take 20 bmp_1x1_24) = (1, 0)
   \<and> get_offset [] = 0 \<and> get_size [] = (0, 0) \<and> get_bpp [] = 0"
  by code_simp

section \<open>Signedness of width and height\<close>

lemma signed32_little_small:
  assumes "from_bytes_little bs < 2 ^ 31"
  shows "signed32_little bs = from_bytes_little bs"
proof -
  have "0 \<le> from_bytes_little bs" by (rule from_bytes_little_nonneg)
  with assms show ?thesis
    unfolding signed32_little_def
    by (simp add: sint_sbintrunc' signed_take_bit_int_eq_self)
qed

text \<open>
  C6 on the code: \<open>get_size\<close> reads both fields unsigned. On the top-down 1x1 image, whose
  height field holds the bytes FF FF FF FF, it returns the height 4294967295, where the
  signed reading of the same four bytes is -1.
\<close>

theorem get_size_reads_unsigned:
  "30 \<le> length bmp_top_down
   \<and> get_size bmp_top_down = (1, 4294967295)
   \<and> signed32_little (py_slice bmp_top_down 22 26) = - 1"
  by code_simp

section \<open>Rejected coordinates\<close>

lemma apply_bitmask_bad_width:
  assumes "i < 0 \<or> fst (get_size raw) \<le> i"
  shows "apply_bitmask raw i j layer bitmask =
           (Inl (ValueNotInExcludeEnd ''Width value out of bounds'' i 0 (fst (get_size raw))), raw)"
  using assms by (auto simp: apply_bitmask_def check_width_def Let_def)

lemma apply_bitmask_bad_height:
  assumes "0 \<le> i" "i < fst (get_size raw)" "j < 0 \<or> snd (get_size raw) \<le> j"
  shows "apply_bitmask raw i j layer bitmask =
           (Inl (ValueNotInExcludeEnd ''Height value out of bounds'' j 0 (snd (get_size raw))), raw)"
  using assms by (auto simp: apply_bitmask_def check_width_def check_height_def Let_def)

lemma apply_bitmask_bad_layer:
  assumes "0 \<le> i" "i < fst (get_size raw)" "0 \<le> j" "j < snd (get_size raw)"
    "get_Bpp raw \<le> layer"
  shows "apply_bitmask raw i j layer bitmask =
           (Inl (ValueNotInExcludeEnd ''Layer value out of bounds'' layer 0 (get_Bpp raw)), raw)"
  using assms
  by (auto simp: apply_bitmask_def check_width_def check_height_def check_layer_def Let_def)

lemma apply_bitmask_accepted:
  assumes "0 \<le> i" "i < fst (get_size raw)" "0 \<le> j" "j < snd (get_size raw)"
    "layer < get_Bpp raw"
  shows "apply_bitmask raw i j layer bitmask =
           bitmask (get_offset raw + j * get_eff_rowsize raw + i * get_Bpp raw + layer) raw"
  using assms
  by (simp add: apply_bitmask_def check_width_def check_height_def check_layer_def Let_def
        get_pixel_offset_in_bounds)

lemma set_one_bad_sublayer:
  assumes "get_bpp raw \<le> sublayer"
  shows "set_one raw i j layer sublayer =
           (Inl (ValueNotInExcludeEnd ''Sublayer value out of bounds'' sublayer 0 (get_bpp raw)), raw)"
  using assms by (simp add: set_one_def check_sublayer_def Let_def)

lemma set_zero_bad_sublayer:
  assumes "get_bpp raw \<le> sublayer"
  shows "set_zero raw i j layer sublayer =
           (Inl (ValueNotInExcludeEnd ''Sublayer value out of bounds'' sublayer 0 (get_bpp raw)), raw)"
  using assms by (simp add: set_zero_def check_sublayer_def Let_def)

lemma set_one_checked:
  "sublayer < get_bpp raw \<Longrightarrow>
   set_one raw i j layer sublayer = apply_bitmask raw i j layer (bitmask_one sublayer)"
  by (simp add: set_one_def check_sublayer_def Let_def)

lemma set_zero_checked:
  "sublayer < get_bpp raw \<Longrightarrow>
   set_zero raw i j layer sublayer = apply_bitmask raw i j layer (bitmask_zero sublayer)"
  by (simp add: set_zero_def check_sublayer_def Let_def)

lemma bitmask_one_error_unchanged:
  "bitmask_one sublayer offset raw = (Inl e, raw') \<Longrightarrow> raw' = raw"
  by (auto simp: bitmask_one_def Let_def split: if_splits option.splits)

lemma bitmask_zero_error_unchanged:
  "bitmask_zero sublayer offset raw = (Inl e, raw') \<Longrightarrow> raw' = raw"
  by (auto simp: bitmask_zero_def Let_def split: if_splits option.splits)

lemma apply_bitmask_error_unchanged:
  assumes "\<And>offset e raw'. bitmask offset raw = (Inl e, raw') \<Longrightarrow> raw' = raw"
    and "apply_bitmask raw i j layer bitmask = (Inl e, raw')"
  shows "raw' = raw"
  using assms(2) assms(1)
  by (auto simp: apply_bitmask_def Let_def split: sum.splits)

lemma set_one_error_unchanged:
  assumes "set_one raw i j layer sublayer = (Inl e, raw')"
  shows "raw' = raw"
proof (cases "check_sublayer raw sublayer")
  case (Inl x)
  with assms show ?thesis by (simp add: set_one_def)
next
  case (Inr u)
  with assms have "apply_bitmask raw i j layer (bitmask_one sublayer) = (Inl e, raw')"
    by (simp add: set_one_def)
  then show ?thesis
    by (rule apply_bitmask_error_unchanged [rotated]) (rule bitmask_one_error_unchanged)
qed

lemma set_zero_error_unchanged:
  assumes "set_zero raw i j layer sublayer = (Inl e, raw')"
  shows "raw' = raw"
proof (cases "check_sublayer raw sublayer")
  case (Inl x)
  with assms show ?thesis by (simp add: set_zero_def)
next
  case (Inr u)
  with assms have "apply_bitmask raw i j layer (bitmask_zero sublayer) = (Inl e, raw')"
    by (simp add: set_zero_def)
  then show ?thesis
    by (rule apply_bitmask_error_unchanged [rotated]) (rule bitmask_zero_error_unchanged)
qed

text \<open>
  C5, as the code has it. A call of \<open>set_one\<close> or \<open>set_zero\<close> with \<open>sublayer \<ge> bpp\<close>,
  or else with \<open>i\<close> outside \<open>[0, width)\<close>, or else with \<open>j\<close> outside \<open>[0, height)\<close>, or
  else with \<open>layer \<ge> Bpp\<close>, raises \<open>ValueNotInExcludeEnd\<close> carrying that value and the
  bounds 0 and the exclusive end, and leaves the buffer as it was; \<open>apply_bitmask\<close> does so
  for \<open>i\<close>, \<open>j\<close> and \<open>layer\<close> whatever its closure is. Every call of \<open>set_one\<close> or
  \<open>set_zero\<close> that raises leaves the buffer as it was. \<open>check_width(width)\<close>,
  \<open>check_height(height)\<close>, \<open>check_layer(Bpp)\<close> and \<open>check_sublayer(bpp)\<close> raise, and on an
  image of width at least 1 \<open>check_width(0)\<close> and \<open>check_width(width - 1)\<close> return. Nothing
  is said here about a negative layer or sublayer.
\<close>

theorem out_of_range_raises:
  "(get_bpp raw \<le> sublayer \<longrightarrow>
      set_one raw i j layer sublayer =
        (Inl (ValueNotInExcludeEnd ''Sublayer value out of bounds'' sublayer 0 (get_bpp raw)), raw)
    \<and> set_zero raw i j layer sublayer =
        (Inl (ValueNotInExcludeEnd ''Sublayer value out of bounds'' sublayer 0 (get_bpp raw)), raw))
   \<and> (i < 0 \<or> fst (get_size raw) \<le> i \<longrightarrow>
      apply_bitmask raw i j layer bitmask =
        (Inl (ValueNotInExcludeEnd ''Width value out of bounds'' i 0 (fst (get_size raw))), raw)
    \<and> (sublayer < get_bpp raw \<longrightarrow>
        set_one raw i j layer sublayer =
          (Inl (ValueNotInExcludeEnd ''Width value out of bounds'' i 0 (fst (get_size raw))), raw)
      \<and> set_zero raw i j layer sublayer =
          (Inl (ValueNotInExcludeEnd ''Width value out of bounds'' i 0 (fst (get_size raw))), raw)))
   \<and> (0 \<le> i \<and> i < fst (get_size raw) \<and> (j < 0 \<or> snd (get_size raw) \<le> j) \<longrightarrow>
      apply_bitmask raw i j layer bitmask =
        (Inl (ValueNotInExcludeEnd ''Height value out of bounds'' j 0 (snd (get_size raw))), raw)
    \<and> (sublayer < get_bpp raw \<longrightarrow>
        set_one raw i j layer sublayer =
          (Inl (ValueNotInExcludeEnd ''Height value out of bounds'' j 0 (snd (get_size raw))), raw)
      \<and> set_zero raw i j layer sublayer =
          (Inl (ValueNotInExcludeEnd ''Height value out of bounds'' j 0 (snd (get_size raw))), raw)))
   \<and> (0 \<le> i \<and> i < fst (get_size raw) \<and> 0 \<le> j \<and> j < snd (get_size raw)
        \<and> get_Bpp raw \<le> layer \<longrightarrow>
      apply_bitmask raw i j layer bitmask =
        (Inl (ValueNotInExcludeEnd ''Layer value out of bounds'' layer 0 (get_Bpp raw)), raw)
    \<and> (sublayer < get_bpp raw \<longrightarrow>
        set_one raw i j layer sublayer =
          (Inl (ValueNotInExcludeEnd ''Layer value out of bounds'' layer 0 (get_Bpp raw)), raw)
      \<and> set_zero raw i j layer sublayer =
          (Inl (ValueNotInExcludeEnd ''Layer value out of bounds'' layer 0 (get_Bpp raw)), raw)))
   \<and> (\<forall>e raw'. set_one raw i j layer sublayer = (Inl e, raw') \<longrightarrow> raw' = raw)
   \<and> (\<forall>e raw'. set_zero raw i j layer sublayer = (Inl e, raw') \<longrightarrow> raw' = raw)
   \<and> check_width raw (fst (get_size raw)) =
        Inl (ValueNotInExcludeEnd ''Width value out of bounds'' (fst (get_size raw)) 0
               (fst (get_size raw)))
   \<and> check_height raw (snd (get_size raw)) =
        Inl (ValueNotInExcludeEnd ''Height value out of bounds'' (snd (get_size raw)) 0
               (snd (get_size raw)))
   \<and> check_layer raw (get_Bpp raw) =
        Inl (ValueNotInExcludeEnd ''Layer value out of bounds'' (get_Bpp raw) 0 (get_Bpp raw))
   \<and> check_sublayer raw (get_bpp raw) =
        Inl (ValueNotInExcludeEnd ''Sublayer value out of bounds'' (get_bpp raw) 0 (get_bpp raw))
   \<and> (1 \<le> fst (get_size raw) \<longrightarrow>
        check_width raw 0 = Inr () \<and> check_width raw (fst (get_size raw) - 1) = Inr ())"
proof -
  have sub: "get_bpp raw \<le> sublayer \<longrightarrow>
      set_one raw i j layer sublayer =
        (Inl (ValueNotInExcludeEnd ''Sublayer value out of bounds'' sublayer 0 (get_bpp raw)), raw)
    \<and> set_zero raw i j layer sublayer =
        (Inl (ValueNotInExcludeEnd ''Sublayer value out of bounds'' sublayer 0 (get_bpp raw)), raw)"
    by (simp add: set_one_bad_sublayer set_zero_bad_sublayer)
  have w: "i < 0 \<or> fst (get_size raw) \<le> i \<longrightarrow>
      apply_bitmask raw i j layer bitmask =
        (Inl (ValueNotInExcludeEnd ''Width value out of bounds'' i 0 (fst (get_size raw))), raw)
    \<and> (sublayer < get_bpp raw \<longrightarrow>
        set_one raw i j layer sublayer =
          (Inl (ValueNotInExcludeEnd ''Width value out of bounds'' i 0 (fst (get_size raw))), raw)
      \<and> set_zero raw i j layer sublayer =
          (Inl (ValueNotInExcludeEnd ''Width value out of bounds'' i 0 (fst (get_size raw))), raw))"
    by (simp add: set_one_checked set_zero_checked apply_bitmask_bad_width)
  have h: "0 \<le> i \<and> i < fst (get_size raw) \<and> (j < 0 \<or> snd (get_size raw) \<le> j) \<longrightarrow>
      apply_bitmask raw i j layer bitmask =
        (Inl (ValueNotInExcludeEnd ''Height value out of bounds'' j 0 (snd (get_size raw))), raw)
    \<and> (sublayer < get_bpp raw \<longrightarrow>
        set_one raw i j layer sublayer =
          (Inl (ValueNotInExcludeEnd ''Height value out of bounds'' j 0 (snd (get_size raw))), raw)
      \<and> set_zero raw i j layer sublayer =
          (Inl (ValueNotInExcludeEnd ''Height value out of bounds'' j 0 (snd (get_size raw))), raw))"
    by (simp add: set_one_checked set_zero_checked apply_bitmask_bad_height)
  have l: "0 \<le> i \<and> i < fst (get_size raw) \<and> 0 \<le> j \<and> j < snd (get_size raw)
        \<and> get_Bpp raw \<le> layer \<longrightarrow>
      apply_bitmask raw i j layer bitmask =
        (Inl (ValueNotInExcludeEnd ''Layer value out of bounds'' layer 0 (get_Bpp raw)), raw)
    \<and> (sublayer < get_bpp raw \<longrightarrow>
        set_one raw i j layer sublayer =
          (Inl (ValueNotInExcludeEnd ''Layer value out of bounds'' layer 0 (get_Bpp raw)), raw)
      \<and> set_zero raw i j layer sublayer =
          (Inl (ValueNotInExcludeEnd ''Layer value out of bounds'' layer 0 (get_Bpp raw)), raw))"
    by (simp add: set_one_checked set_zero_checked apply_bitmask_bad_layer)
  have u1: "\<forall>e raw'. set_one raw i j layer sublayer = (Inl e, raw') \<longrightarrow> raw' = raw"
    using set_one_error_unchanged by blast
  have u0: "\<forall>e raw'. set_zero raw i j layer sublayer = (Inl e, raw') \<longrightarrow> raw' = raw"
    using set_zero_error_unchanged by blast
  have b: "check_width raw (fst (get_size raw)) =
        Inl (ValueNotInExcludeEnd ''Width value out of bounds'' (fst (get_size raw)) 0
               (fst (get_size raw)))"
    "check_height raw (snd (get_size raw)) =
        Inl (ValueNotInExcludeEnd ''Height value out of bounds'' (snd (get_size raw)) 0
               (snd (get_size raw)))"
    "check_layer raw (get_Bpp raw) =
        Inl (ValueNotInExcludeEnd ''Layer value out of bounds'' (get_Bpp raw) 0 (get_Bpp raw))"
    "check_sublayer raw (get_bpp raw) =
        Inl (ValueNotInExcludeEnd ''Sublayer value out of bounds'' (get_bpp raw) 0 (get_bpp raw))"
    by (simp_all add: check_width_def check_height_def check_layer_def check_sublayer_def Let_def)
  have c: "1 \<le> fst (get_size raw) \<longrightarrow>
        check_width raw 0 = Inr () \<and> check_width raw (fst (get_size raw) - 1) = Inr ()"
    by (simp add: check_width_iff)
  from sub w h l u1 u0 b c show ?thesis
    by (intro conjI)
qed

theorem out_of_range_raises_witness:
  "set_one bmp_1x1_24 0 0 0 24 =
     (Inl (ValueNotInExcludeEnd ''Sublayer value out of bounds'' 24 0 24), bmp_1x1_24)
   \<and> set_one bmp_1x1_24 (- 1) 0 0 0 =
     (Inl (ValueNotInExcludeEnd ''Width value out of bounds'' (- 1) 0 1), bmp_1x1_24)
   \<and> set_zero bmp_1x1_24 0 1 0 0 =
     (Inl (ValueNotInExcludeEnd ''Height value out of bounds'' 1 0 1), bmp_1x1_24)
   \<and> set_zero bmp_1x1_24 0 0 3 0 =
     (Inl (ValueNotInExcludeEnd ''Layer value out of bounds'' 3 0 3), bmp_1x1_24)
   \<and> check_width bmp_1x1_24 0 = Inr ()"
proof -
  have v: "get_bpp bmp_1x1_24 = 24" "get_size bmp_1x1_24 = (1, 1)" "get_Bpp bmp_1x1_24 = 3"
    by code_simp+
  show ?thesis
    using out_of_range_raises [of bmp_1x1_24 24 0 0 0]
      out_of_range_raises [of bmp_1x1_24 0 "- 1" 0 0]
      out_of_range_raises [of bmp_1x1_24 0 0 1 0]
      out_of_range_raises [of bmp_1x1_24 0 0 0 3]
    by (simp add: v)
qed

text \<open>
  On the 1x1 image of 24 bits per pixel, \<open>set_one(0, 0, -1, 0)\<close> has a layer outside
  \<open>[0, 3)\<close>, raises nothing and writes byte 53, the last byte of the header. On a header of
  width 0, \<open>check_width(0)\<close> and \<open>check_width(width - 1)\<close> raise.
\<close>

theorem out_of_range_counterexample:
  "set_one bmp_1x1_24 0 0 (- 1) 0 = (Inr (), bmp_1x1_24[53 := 1])
   \<and> bmp_1x1_24 ! 53 = 0
   \<and> fst (get_size bmp_0x1_24) = 0
   \<and> check_width bmp_0x1_24 0 =
       Inl (ValueNotInExcludeEnd ''Width value out of bounds'' 0 0 0)
   \<and> check_width bmp_0x1_24 (fst (get_size bmp_0x1_24) - 1) =
       Inl (ValueNotInExcludeEnd ''Width value out of bounds'' (- 1) 0 0)"
  by code_simp

section \<open>The two closures on one byte\<close>

lemma py_index_less: "py_index n k = Some m \<Longrightarrow> m < n"
  by (auto simp: py_index_def split: if_splits)

lemma py_index_in_range: "0 \<le> k \<Longrightarrow> k < int n \<Longrightarrow> py_index n k = Some (nat k)"
  by (simp add: py_index_def)

lemma or_mask_in_byte:
  fixes x :: byte
  assumes "s < 8"
  shows "0 \<le> uint x OR 2 ^ s" "uint x OR 2 ^ s < 256"
proof -
  show "0 \<le> uint x OR 2 ^ s" by simp
  have "uint x < 2 ^ 8" using uint_bounded [of x] by simp
  moreover have "(2::int) ^ s < 2 ^ 8"
    using assms by (intro power_strict_increasing) simp_all
  ultimately have "uint x OR 2 ^ s < 2 ^ 8"
    by (intro OR_upper) simp_all
  then show "uint x OR 2 ^ s < 256" by simp
qed

lemma or_mask_not_in_byte:
  fixes x :: byte
  assumes "8 \<le> s"
  shows "256 \<le> uint x OR 2 ^ s"
proof -
  have "(2::int) ^ 8 \<le> 2 ^ s"
    using assms by (intro power_increasing) simp_all
  then have "256 \<le> (2::int) ^ s" by simp
  also have "(2::int) ^ s \<le> 2 ^ s OR uint x"
    by (rule or_greater_eq) simp
  finally show ?thesis by (simp add: or.commute)
qed

lemma and_mask_in_byte:
  fixes x :: byte
  shows "0 \<le> uint x AND (255 XOR 2 ^ s)" "uint x AND (255 XOR 2 ^ s) < 256"
proof -
  show "0 \<le> uint x AND (255 XOR 2 ^ s)" by simp
  have "uint x AND (255 XOR 2 ^ s) \<le> uint x"
    by (rule AND_upper1) simp
  moreover have "uint x < 256" using uint_bounded [of x] by simp
  ultimately show "uint x AND (255 XOR 2 ^ s) < 256" by linarith
qed

lemma bit_255: "bit (255::int) n \<longleftrightarrow> n < 8"
proof -
  have "(255::int) = mask 8" by (simp add: mask_eq_exp_minus_1)
  then show ?thesis by (simp only: bit_mask_iff) simp
qed

lemma byte_or_mask:
  fixes x :: byte
  shows "word_of_int (uint x OR 2 ^ s) = x OR 2 ^ s"
  by (rule bit_word_eqI) (auto simp: bit_simps)

lemma byte_and_mask:
  fixes x :: byte
  shows "word_of_int (uint x AND (255 XOR 2 ^ s)) = x AND NOT (2 ^ s)"
  by (rule bit_word_eqI) (auto simp: bit_simps bit_255)

lemma bit_byte_or_mask:
  fixes x :: byte
  shows "bit (x OR 2 ^ s) n \<longleftrightarrow> bit x n \<or> (n = s \<and> s < 8)"
  by (auto simp: bit_simps)

lemma bit_byte_and_mask:
  fixes x :: byte
  shows "bit (x AND NOT (2 ^ s)) n \<longleftrightarrow> bit x n \<and> n \<noteq> s"
  by (auto simp: bit_simps dest: bit_imp_le_length)

lemma bitmask_one_writes:
  assumes "0 \<le> sublayer" "sublayer < 8" "py_index (length raw) offset = Some k"
  shows "bitmask_one sublayer offset raw =
           (Inr (), raw[k := raw ! k OR push_bit (nat sublayer) 1])"
proof -
  have "nat sublayer < 8" using assms by simp
  from or_mask_in_byte [OF this, of "raw ! k"] assms show ?thesis
    by (simp add: bitmask_one_def Let_def byte_or_mask)
qed

lemma bitmask_one_too_wide:
  assumes "8 \<le> sublayer" "py_index (length raw) offset = Some k"
  shows "bitmask_one sublayer offset raw =
           (Inl (ValueError ''byte must be in range(0, 256)''), raw)"
proof -
  have "8 \<le> nat sublayer" using assms by simp
  from or_mask_not_in_byte [OF this, of "raw ! k"] assms show ?thesis
    by (simp add: bitmask_one_def Let_def)
qed

lemma bitmask_zero_writes:
  assumes "0 \<le> sublayer" "py_index (length raw) offset = Some k"
  shows "bitmask_zero sublayer offset raw =
           (Inr (), raw[k := raw ! k AND NOT (push_bit (nat sublayer) 1)])"
  using and_mask_in_byte [of "raw ! k" "nat sublayer"] assms
  by (simp add: bitmask_zero_def Let_def byte_and_mask)

lemma bitmask_one_no_byte:
  assumes "0 \<le> sublayer" "py_index (length raw) offset = None"
  shows "bitmask_one sublayer offset raw =
           (Inl IndexError, raw)"
  using assms by (simp add: bitmask_one_def Let_def)

lemma bitmask_zero_no_byte:
  assumes "0 \<le> sublayer" "py_index (length raw) offset = None"
  shows "bitmask_zero sublayer offset raw =
           (Inl IndexError, raw)"
  using assms by (simp add: bitmask_zero_def Let_def)

lemma bitmask_one_returns:
  assumes "bitmask_one sublayer offset raw = (Inr (), raw')"
  shows "\<exists>k. py_index (length raw) offset = Some k \<and> 0 \<le> sublayer
           \<and> raw' = raw[k := raw ! k OR push_bit (nat sublayer) 1]"
  using assms
  by (auto simp: bitmask_one_def Let_def byte_or_mask split: if_splits option.splits)

lemma bitmask_zero_returns:
  assumes "bitmask_zero sublayer offset raw = (Inr (), raw')"
  shows "\<exists>k. py_index (length raw) offset = Some k \<and> 0 \<le> sublayer
           \<and> raw' = raw[k := raw ! k AND NOT (push_bit (nat sublayer) 1)]"
  using assms
  by (auto simp: bitmask_zero_def Let_def byte_and_mask split: if_splits option.splits)

section \<open>Accepted coordinates\<close>

lemma target_index_accepted:
  assumes "0 \<le> i" "i < fst (get_size raw)" "0 \<le> j" "j < snd (get_size raw)"
  shows "target_index raw i j layer =
           py_index (length raw)
             (get_offset raw + j * get_eff_rowsize raw + i * get_Bpp raw + layer)"
  using assms by (simp add: target_index_def get_pixel_offset_in_bounds)

lemma target_index_Some_bounds:
  assumes "target_index raw i j layer = Some k"
  shows "0 \<le> i \<and> i < fst (get_size raw) \<and> 0 \<le> j \<and> j < snd (get_size raw) \<and> k < length raw"
proof -
  from assms obtain p where p: "get_pixel_offset raw i j = Inr p"
    and k: "py_index (length raw) (p + layer) = Some k"
    by (auto simp: target_index_def split: sum.splits)
  from p have "0 \<le> i \<and> i < fst (get_size raw) \<and> 0 \<le> j \<and> j < snd (get_size raw)"
    using get_pixel_offset_Inr_iff [of raw i j] by blast
  with py_index_less [OF k] show ?thesis by simp
qed

lemma apply_bitmask_target:
  assumes "target_index raw i j layer = Some k" "layer < get_Bpp raw"
  shows "\<exists>offset. py_index (length raw) offset = Some k
           \<and> apply_bitmask raw i j layer bitmask = bitmask offset raw"
proof -
  note b = target_index_Some_bounds [OF assms(1)]
  let ?off = "get_offset raw + j * get_eff_rowsize raw + i * get_Bpp raw + layer"
  have "py_index (length raw) ?off = Some k"
    using assms(1) b by (simp add: target_index_accepted)
  moreover have "apply_bitmask raw i j layer bitmask = bitmask ?off raw"
    using b assms(2) by (simp add: apply_bitmask_accepted)
  ultimately show ?thesis by blast
qed

lemma apply_bitmask_no_target:
  assumes "0 \<le> i" "i < fst (get_size raw)" "0 \<le> j" "j < snd (get_size raw)"
    "layer < get_Bpp raw" "target_index raw i j layer = None"
  shows "\<exists>offset. py_index (length raw) offset = None
           \<and> apply_bitmask raw i j layer bitmask = bitmask offset raw"
proof -
  let ?off = "get_offset raw + j * get_eff_rowsize raw + i * get_Bpp raw + layer"
  have "py_index (length raw) ?off = None"
    using assms by (simp add: target_index_accepted)
  moreover have "apply_bitmask raw i j layer bitmask = bitmask ?off raw"
    using assms by (simp add: apply_bitmask_accepted)
  ultimately show ?thesis by blast
qed

lemma set_one_writes:
  assumes "target_index raw i j layer = Some k" "layer < get_Bpp raw"
    "sublayer < get_bpp raw" "0 \<le> sublayer" "sublayer < 8"
  shows "set_one raw i j layer sublayer =
           (Inr (), raw[k := raw ! k OR push_bit (nat sublayer) 1])"
proof -
  from apply_bitmask_target [OF assms(1,2), of "bitmask_one sublayer"]
  obtain offset where "py_index (length raw) offset = Some k"
    and "apply_bitmask raw i j layer (bitmask_one sublayer) = bitmask_one sublayer offset raw"
    by blast
  with assms show ?thesis
    by (simp add: set_one_checked bitmask_one_writes)
qed

lemma set_one_too_wide:
  assumes "target_index raw i j layer = Some k" "layer < get_Bpp raw"
    "sublayer < get_bpp raw" "8 \<le> sublayer"
  shows "set_one raw i j layer sublayer =
           (Inl (ValueError ''byte must be in range(0, 256)''), raw)"
proof -
  from apply_bitmask_target [OF assms(1,2), of "bitmask_one sublayer"]
  obtain offset where "py_index (length raw) offset = Some k"
    and "apply_bitmask raw i j layer (bitmask_one sublayer) = bitmask_one sublayer offset raw"
    by blast
  with assms show ?thesis
    by (simp add: set_one_checked bitmask_one_too_wide)
qed

lemma set_zero_writes:
  assumes "target_index raw i j layer = Some k" "layer < get_Bpp raw"
    "sublayer < get_bpp raw" "0 \<le> sublayer"
  shows "set_zero raw i j layer sublayer =
           (Inr (), raw[k := raw ! k AND NOT (push_bit (nat sublayer) 1)])"
proof -
  from apply_bitmask_target [OF assms(1,2), of "bitmask_zero sublayer"]
  obtain offset where "py_index (length raw) offset = Some k"
    and "apply_bitmask raw i j layer (bitmask_zero sublayer) = bitmask_zero sublayer offset raw"
    by blast
  with assms show ?thesis
    by (simp add: set_zero_checked bitmask_zero_writes)
qed

text \<open>
  C3, as the code has it. Let \<open>(i, j, layer, sublayer)\<close> be accepted by the four checks,
  with \<open>sublayer\<close> not negative, and let \<open>get_pixel_offset(i, j) + layer\<close> denote byte \<open>k\<close>
  of the buffer. Then \<open>set_zero\<close> returns, having replaced byte \<open>k\<close> by a byte whose bit
  \<open>sublayer\<close> is 0 and whose other bits are those of the old byte. If \<open>sublayer < 8\<close>,
  \<open>set_one\<close> returns, having replaced byte \<open>k\<close> by a byte whose bit \<open>sublayer\<close> is 1 and
  whose other bits are those of the old byte; if \<open>sublayer \<ge> 8\<close> it raises the ValueError
  of the bytearray and leaves the buffer as it was.
\<close>

theorem set_bit_round_trip:
  assumes "check_width raw i = Inr ()" "check_height raw j = Inr ()"
    "check_layer raw layer = Inr ()" "check_sublayer raw sublayer = Inr ()"
    "0 \<le> sublayer" "target_index raw i j layer = Some k"
  shows "(sublayer < 8 \<longrightarrow>
            (\<exists>v. set_one raw i j layer sublayer = (Inr (), raw[k := v])
               \<and> bit v (nat sublayer)
               \<and> (\<forall>n. n \<noteq> nat sublayer \<longrightarrow> bit v n = bit (raw ! k) n)))
       \<and> (8 \<le> sublayer \<longrightarrow>
            set_one raw i j layer sublayer =
              (Inl (ValueError ''byte must be in range(0, 256)''), raw))
       \<and> (\<exists>v. set_zero raw i j layer sublayer = (Inr (), raw[k := v])
               \<and> \<not> bit v (nat sublayer)
               \<and> (\<forall>n. n \<noteq> nat sublayer \<longrightarrow> bit v n = bit (raw ! k) n))"
proof -
  have l: "layer < get_Bpp raw" and s: "sublayer < get_bpp raw"
    using assms by (simp_all add: check_layer_iff check_sublayer_iff)
  have one: "sublayer < 8 \<longrightarrow>
            (\<exists>v. set_one raw i j layer sublayer = (Inr (), raw[k := v])
               \<and> bit v (nat sublayer)
               \<and> (\<forall>n. n \<noteq> nat sublayer \<longrightarrow> bit v n = bit (raw ! k) n))"
  proof
    assume s8: "sublayer < 8"
    let ?v = "raw ! k OR push_bit (nat sublayer) 1"
    have "set_one raw i j layer sublayer = (Inr (), raw[k := ?v])"
      using assms(5,6) l s s8 by (simp add: set_one_writes)
    moreover have "bit ?v (nat sublayer)"
    proof -
      have "nat sublayer < 8" using s8 assms(5) by linarith
      then show ?thesis by (simp add: bit_byte_or_mask)
    qed
    moreover have "\<forall>n. n \<noteq> nat sublayer \<longrightarrow> bit ?v n = bit (raw ! k) n"
      by (simp add: bit_byte_or_mask)
    ultimately show "\<exists>v. set_one raw i j layer sublayer = (Inr (), raw[k := v])
               \<and> bit v (nat sublayer)
               \<and> (\<forall>n. n \<noteq> nat sublayer \<longrightarrow> bit v n = bit (raw ! k) n)"
      by blast
  qed
  have wide: "8 \<le> sublayer \<longrightarrow>
            set_one raw i j layer sublayer =
              (Inl (ValueError ''byte must be in range(0, 256)''), raw)"
    using assms(6) l s by (simp add: set_one_too_wide)
  have zero: "\<exists>v. set_zero raw i j layer sublayer = (Inr (), raw[k := v])
               \<and> \<not> bit v (nat sublayer)
               \<and> (\<forall>n. n \<noteq> nat sublayer \<longrightarrow> bit v n = bit (raw ! k) n)"
  proof -
    let ?v = "raw ! k AND NOT (push_bit (nat sublayer) 1)"
    have "set_zero raw i j layer sublayer = (Inr (), raw[k := ?v])"
      using assms(5,6) l s by (simp add: set_zero_writes)
    moreover have "\<not> bit ?v (nat sublayer)"
      by (simp add: bit_byte_and_mask)
    moreover have "\<forall>n. n \<noteq> nat sublayer \<longrightarrow> bit ?v n = bit (raw ! k) n"
      by (simp add: bit_byte_and_mask)
    ultimately show ?thesis by blast
  qed
  from one wide zero show ?thesis by (intro conjI)
qed

theorem set_bit_round_trip_witness:
  "fst (set_one bmp_1x1_24 0 0 0 0) = Inr ()
   \<and> bit (snd (set_one bmp_1x1_24 0 0 0 0) ! 54) 0
   \<and> fst (set_zero bmp_1x1_24 0 0 0 0) = Inr ()
   \<and> \<not> bit (snd (set_zero bmp_1x1_24 0 0 0 0) ! 54) 0"
proof -
  have h: "check_width bmp_1x1_24 0 = Inr ()" "check_height bmp_1x1_24 0 = Inr ()"
    "check_layer bmp_1x1_24 0 = Inr ()" "check_sublayer bmp_1x1_24 0 = Inr ()"
    "(0::int) \<le> 0" "target_index bmp_1x1_24 0 0 0 = Some 54"
    by code_simp+
  have n: "54 < length bmp_1x1_24" by code_simp
  from set_bit_round_trip [OF h] obtain v w where
    v: "set_one bmp_1x1_24 0 0 0 0 = (Inr (), bmp_1x1_24[54 := v])" "bit v 0"
    and w: "set_zero bmp_1x1_24 0 0 0 0 = (Inr (), bmp_1x1_24[54 := w])" "\<not> bit w 0"
    by auto
  from v w n show ?thesis by simp
qed

text \<open>
  On the 1x1 image of 24 bits per pixel the four checks accept \<open>(0, 0, 0, 8)\<close>, and
  \<open>set_one\<close> raises: the byte ored with \<open>1 << 8\<close> does not fit a bytearray. On the
  buffer cut after 40 bytes the checks accept \<open>(0, 0, 0, 0)\<close>, and \<open>set_one\<close> and
  \<open>set_zero\<close> raise IndexError: offset 54 is not in the buffer.
\<close>

theorem set_bit_round_trip_counterexample:
  "check_width bmp_1x1_24 0 = Inr () \<and> check_height bmp_1x1_24 0 = Inr ()
   \<and> check_layer bmp_1x1_24 0 = Inr () \<and> check_sublayer bmp_1x1_24 8 = Inr ()
   \<and> set_one bmp_1x1_24 0 0 0 8 =
       (Inl (ValueError ''byte must be in range(0, 256)''), bmp_1x1_24)
   \<and> check_width bmp_truncated 0 = Inr () \<and> check_height bmp_truncated 0 = Inr ()
   \<and> check_layer bmp_truncated 0 = Inr () \<and> check_sublayer bmp_truncated 0 = Inr ()
   \<and> set_one bmp_truncated 0 0 0 0 =
       (Inl IndexError, bmp_truncated)
   \<and> set_zero bmp_truncated 0 0 0 0 =
       (Inl IndexError, bmp_truncated)"
  by code_simp

section \<open>Negative layers\<close>

lemma set_one_no_byte:
  assumes "0 \<le> i" "i < fst (get_size raw)" "0 \<le> j" "j < snd (get_size raw)"
    "layer < get_Bpp raw" "target_index raw i j layer = None"
    "sublayer < get_bpp raw" "0 \<le> sublayer"
  shows "set_one raw i j layer sublayer =
           (Inl IndexError, raw)"
proof -
  from apply_bitmask_no_target [OF assms(1-6), of "bitmask_one sublayer"]
  obtain offset where "py_index (length raw) offset = None"
    and "apply_bitmask raw i j layer (bitmask_one sublayer) = bitmask_one sublayer offset raw"
    by blast
  with assms(7,8) show ?thesis
    by (simp add: set_one_checked bitmask_one_no_byte)
qed

lemma set_zero_no_byte:
  assumes "0 \<le> i" "i < fst (get_size raw)" "0 \<le> j" "j < snd (get_size raw)"
    "layer < get_Bpp raw" "target_index raw i j layer = None"
    "sublayer < get_bpp raw" "0 \<le> sublayer"
  shows "set_zero raw i j layer sublayer =
           (Inl IndexError, raw)"
proof -
  from apply_bitmask_no_target [OF assms(1-6), of "bitmask_zero sublayer"]
  obtain offset where "py_index (length raw) offset = None"
    and "apply_bitmask raw i j layer (bitmask_zero sublayer) = bitmask_zero sublayer offset raw"
    by blast
  with assms(7,8) show ?thesis
    by (simp add: set_zero_checked bitmask_zero_no_byte)
qed

text \<open>
  C10, as the code has it. For every buffer, every in-bounds \<open>(i, j)\<close>, every negative
  layer and every sublayer with \<open>0 \<le> sublayer < 8\<close> that \<open>check_sublayer\<close> accepts
  (\<open>sublayer < bpp\<close>): \<open>check_layer\<close> accepts the layer. If
  \<open>get_pixel_offset(i, j) + layer\<close> denotes a byte \<open>k\<close> of the buffer (a negative index
  counting from the end), \<open>set_one\<close> and \<open>set_zero\<close> return with the bit set or cleared
  in byte \<open>k\<close>; if it denotes none, both raise IndexError and leave the buffer as it was.
  For pixel (0, 0) the offset is \<open>payload_offset + layer\<close>; when that is not negative and
  inside the buffer, it is the byte written, and it lies strictly before the pixel array.
\<close>

theorem negative_layer_accepted:
  assumes "layer < 0" "0 \<le> i" "i < fst (get_size raw)" "0 \<le> j" "j < snd (get_size raw)"
    "0 \<le> sublayer" "sublayer < 8" "sublayer < get_bpp raw"
  shows "check_layer raw layer = Inr ()
       \<and> (\<exists>p. get_pixel_offset raw i j = Inr p
            \<and> (\<forall>k. py_index (length raw) (p + layer) = Some k \<longrightarrow>
                  set_one raw i j layer sublayer =
                    (Inr (), raw[k := raw ! k OR push_bit (nat sublayer) 1])
                \<and> set_zero raw i j layer sublayer =
                    (Inr (), raw[k := raw ! k AND NOT (push_bit (nat sublayer) 1)]))
            \<and> (py_index (length raw) (p + layer) = None \<longrightarrow>
                  set_one raw i j layer sublayer =
                    (Inl IndexError, raw)
                \<and> set_zero raw i j layer sublayer =
                    (Inl IndexError, raw))
            \<and> (i = 0 \<and> j = 0 \<longrightarrow> p = get_offset raw)
            \<and> (0 \<le> p + layer \<and> p + layer < int (length raw) \<longrightarrow>
                  py_index (length raw) (p + layer) = Some (nat (p + layer))
                \<and> nat (p + layer) < nat p))"
proof -
  define p where "p = get_offset raw + j * get_eff_rowsize raw + i * get_Bpp raw"
  have gp: "get_pixel_offset raw i j = Inr p"
    using assms by (simp add: get_pixel_offset_in_bounds p_def)
  have ti: "target_index raw i j layer = py_index (length raw) (p + layer)"
    by (simp add: target_index_def gp)
  have l: "layer < get_Bpp raw"
    using get_Bpp_pos [of raw] assms(1) by linarith
  have cl: "check_layer raw layer = Inr ()"
    using l by (simp add: check_layer_iff)
  have wr: "\<forall>k. py_index (length raw) (p + layer) = Some k \<longrightarrow>
                  set_one raw i j layer sublayer =
                    (Inr (), raw[k := raw ! k OR push_bit (nat sublayer) 1])
                \<and> set_zero raw i j layer sublayer =
                    (Inr (), raw[k := raw ! k AND NOT (push_bit (nat sublayer) 1)])"
    using assms(6-8) l ti by (simp add: set_one_writes set_zero_writes)
  have nb: "py_index (length raw) (p + layer) = None \<longrightarrow>
                  set_one raw i j layer sublayer =
                    (Inl IndexError, raw)
                \<and> set_zero raw i j layer sublayer =
                    (Inl IndexError, raw)"
    using assms(2-6,8) l ti by (simp add: set_one_no_byte set_zero_no_byte)
  have z: "i = 0 \<and> j = 0 \<longrightarrow> p = get_offset raw"
    by (simp add: p_def)
  have before: "0 \<le> p + layer \<and> p + layer < int (length raw) \<longrightarrow>
                  py_index (length raw) (p + layer) = Some (nat (p + layer))
                \<and> nat (p + layer) < nat p"
    using assms(1) by (auto simp: py_index_in_range)
  from gp wr nb z before have
    "get_pixel_offset raw i j = Inr p
            \<and> (\<forall>k. py_index (length raw) (p + layer) = Some k \<longrightarrow>
                  set_one raw i j layer sublayer =
                    (Inr (), raw[k := raw ! k OR push_bit (nat sublayer) 1])
                \<and> set_zero raw i j layer sublayer =
                    (Inr (), raw[k := raw ! k AND NOT (push_bit (nat sublayer) 1)]))
            \<and> (py_index (length raw) (p + layer) = None \<longrightarrow>
                  set_one raw i j layer sublayer =
                    (Inl IndexError, raw)
                \<and> set_zero raw i j layer sublayer =
                    (Inl IndexError, raw))
            \<and> (i = 0 \<and> j = 0 \<longrightarrow> p = get_offset raw)
            \<and> (0 \<le> p + layer \<and> p + layer < int (length raw) \<longrightarrow>
                  py_index (length raw) (p + layer) = Some (nat (p + layer))
                \<and> nat (p + layer) < nat p)"
    by (intro conjI)
  then have "\<exists>p. get_pixel_offset raw i j = Inr p
            \<and> (\<forall>k. py_index (length raw) (p + layer) = Some k \<longrightarrow>
                  set_one raw i j layer sublayer =
                    (Inr (), raw[k := raw ! k OR push_bit (nat sublayer) 1])
                \<and> set_zero raw i j layer sublayer =
                    (Inr (), raw[k := raw ! k AND NOT (push_bit (nat sublayer) 1)]))
            \<and> (py_index (length raw) (p + layer) = None \<longrightarrow>
                  set_one raw i j layer sublayer =
                    (Inl IndexError, raw)
                \<and> set_zero raw i j layer sublayer =
                    (Inl IndexError, raw))
            \<and> (i = 0 \<and> j = 0 \<longrightarrow> p = get_offset raw)
            \<and> (0 \<le> p + layer \<and> p + layer < int (length raw) \<longrightarrow>
                  py_index (length raw) (p + layer) = Some (nat (p + layer))
                \<and> nat (p + layer) < nat p)"
    by (rule exI)
  with cl show ?thesis by (rule conjI)
qed

theorem negative_layer_accepted_witness:
  "check_layer bmp_1x1_24 (- 1) = Inr ()
   \<and> get_pixel_offset bmp_1x1_24 0 0 = Inr 54
   \<and> set_one bmp_1x1_24 0 0 (- 1) 1 = (Inr (), bmp_1x1_24[53 := 2])
   \<and> set_zero bmp_1x1_24 0 0 (- 1) 1 = (Inr (), bmp_1x1_24[53 := 0])"
proof -
  have h: "(- 1 :: int) < 0" "(0::int) \<le> 0" "0 < fst (get_size bmp_1x1_24)" "(0::int) \<le> 0"
    "0 < snd (get_size bmp_1x1_24)" "(0::int) \<le> 1" "(1::int) < 8" "1 < get_bpp bmp_1x1_24"
    by code_simp+
  have p: "get_pixel_offset bmp_1x1_24 0 0 = Inr 54" by code_simp
  have k: "py_index (length bmp_1x1_24) (54 + - 1) = Some 53" by code_simp
  have b: "bmp_1x1_24 ! 53 = 0" by code_simp
  from negative_layer_accepted [OF h] p k b show ?thesis
    by auto
qed

text \<open>
  The 1x1 image of 4 bits per pixel has a payload of 4 bytes; with layer -1 and sublayer 5
  (in \<open>[0, 8)\<close>) \<open>set_one\<close> and \<open>set_zero\<close> do not proceed: \<open>check_sublayer\<close> raises. On
  the 1x1 image of 24 bits per pixel, layer -55 gives pixel (0, 0) the offset -1, and the
  byte written is the last one of the buffer, byte 57, inside the pixel array.
\<close>

theorem negative_layer_counterexample:
  "0 < get_payload_size bmp_1x1_4
   \<and> set_one bmp_1x1_4 0 0 (- 1) 5 =
       (Inl (ValueNotInExcludeEnd ''Sublayer value out of bounds'' 5 0 4), bmp_1x1_4)
   \<and> set_zero bmp_1x1_4 0 0 (- 1) 5 =
       (Inl (ValueNotInExcludeEnd ''Sublayer value out of bounds'' 5 0 4), bmp_1x1_4)
   \<and> 0 < get_payload_size bmp_1x1_24 \<and> get_offset bmp_1x1_24 = 54
   \<and> length bmp_1x1_24 = 58
   \<and> set_one bmp_1x1_24 0 0 (- 55) 0 = (Inr (), bmp_1x1_24[57 := 1])
   \<and> bmp_1x1_24 ! 57 = 0"
  by code_simp

section \<open>Frame of a mutation\<close>

lemma only_byte_written_update:
  "k < length raw \<Longrightarrow> only_byte_written k raw (raw[k := v])"
  by (simp add: only_byte_written_def)

lemma single_byte_bitmask_one: "single_byte_bitmask (bitmask_one sublayer)"
  unfolding single_byte_bitmask_def
proof (intro allI impI)
  fix offset raw raw'
  assume "bitmask_one sublayer offset raw = (Inr (), raw')"
  from bitmask_one_returns [OF this] obtain k where
    k: "py_index (length raw) offset = Some k"
    and r: "raw' = raw[k := raw ! k OR push_bit (nat sublayer) 1]"
    by blast
  from py_index_less [OF k] r have "only_byte_written k raw raw'"
    by (simp add: only_byte_written_update)
  with k show "\<exists>k. py_index (length raw) offset = Some k \<and> only_byte_written k raw raw'"
    by blast
qed

lemma single_byte_bitmask_zero: "single_byte_bitmask (bitmask_zero sublayer)"
  unfolding single_byte_bitmask_def
proof (intro allI impI)
  fix offset raw raw'
  assume "bitmask_zero sublayer offset raw = (Inr (), raw')"
  from bitmask_zero_returns [OF this] obtain k where
    k: "py_index (length raw) offset = Some k"
    and r: "raw' = raw[k := raw ! k AND NOT (push_bit (nat sublayer) 1)]"
    by blast
  from py_index_less [OF k] r have "only_byte_written k raw raw'"
    by (simp add: only_byte_written_update)
  with k show "\<exists>k. py_index (length raw) offset = Some k \<and> only_byte_written k raw raw'"
    by blast
qed

lemma apply_bitmask_returns:
  assumes "apply_bitmask raw i j layer bitmask = (Inr (), raw')"
  shows "\<exists>p. get_pixel_offset raw i j = Inr p \<and> bitmask (p + layer) raw = (Inr (), raw')"
  using assms by (auto simp: apply_bitmask_def Let_def split: sum.splits)

lemma apply_bitmask_frame:
  assumes "single_byte_bitmask bitmask" "apply_bitmask raw i j layer bitmask = (Inr (), raw')"
  shows "\<exists>k. target_index raw i j layer = Some k \<and> only_byte_written k raw raw'"
proof -
  from apply_bitmask_returns [OF assms(2)] obtain p where
    p: "get_pixel_offset raw i j = Inr p" and b: "bitmask (p + layer) raw = (Inr (), raw')"
    by blast
  from assms(1) b obtain k where
    "py_index (length raw) (p + layer) = Some k" "only_byte_written k raw raw'"
    unfolding single_byte_bitmask_def by blast
  with p show ?thesis by (auto simp: target_index_def)
qed

lemma set_one_frame:
  assumes "set_one raw i j layer sublayer = (Inr (), raw')"
  shows "\<exists>k. target_index raw i j layer = Some k \<and> only_byte_written k raw raw'"
proof -
  from assms have "apply_bitmask raw i j layer (bitmask_one sublayer) = (Inr (), raw')"
    by (auto simp: set_one_def split: sum.splits)
  with single_byte_bitmask_one show ?thesis by (rule apply_bitmask_frame)
qed

lemma set_zero_frame:
  assumes "set_zero raw i j layer sublayer = (Inr (), raw')"
  shows "\<exists>k. target_index raw i j layer = Some k \<and> only_byte_written k raw raw'"
proof -
  from assms have "apply_bitmask raw i j layer (bitmask_zero sublayer) = (Inr (), raw')"
    by (auto simp: set_zero_def split: sum.splits)
  with single_byte_bitmask_zero show ?thesis by (rule apply_bitmask_frame)
qed

lemma set_one_length: "length (snd (set_one raw i j layer sublayer)) = length raw"
proof (cases "set_one raw i j layer sublayer")
  case (Pair r raw')
  show ?thesis
  proof (cases r)
    case (Inl e)
    with Pair set_one_error_unchanged [of raw i j layer sublayer e raw'] show ?thesis by simp
  next
    case (Inr u)
    with Pair set_one_frame [of raw i j layer sublayer raw'] show ?thesis
      by (auto simp: only_byte_written_def)
  qed
qed

lemma set_zero_length: "length (snd (set_zero raw i j layer sublayer)) = length raw"
proof (cases "set_zero raw i j layer sublayer")
  case (Pair r raw')
  show ?thesis
  proof (cases r)
    case (Inl e)
    with Pair set_zero_error_unchanged [of raw i j layer sublayer e raw'] show ?thesis by simp
  next
    case (Inr u)
    with Pair set_zero_frame [of raw i j layer sublayer raw'] show ?thesis
      by (auto simp: only_byte_written_def)
  qed
qed

section \<open>Replacing the payload\<close>

lemma get_payload_size_nonneg: "0 \<le> get_payload_size raw"
  using height_range(1) [of raw] get_eff_rowsize_nonneg [of raw]
  by (simp add: get_payload_size_def Let_def)

lemma py_slice_assign_inside:
  assumes "a + m \<le> length xs"
  shows "py_slice_assign xs (int a) (int a + int m) ys = take a xs @ ys @ drop (a + m) xs"
proof -
  have "slice_bound (length xs) (int a) = a"
    using assms by (simp add: slice_bound_def)
  moreover have "slice_bound (length xs) (int a + int m) = a + m"
    using assms by (simp add: slice_bound_def nat_add_distrib)
  ultimately show ?thesis
    by (simp add: py_slice_assign_def Let_def)
qed

lemma py_slice_inside:
  assumes "a + m \<le> length xs"
  shows "py_slice xs (int a) (int a + int m) = take m (drop a xs)"
proof -
  have "slice_bound (length xs) (int a) = a"
    using assms by (simp add: slice_bound_def)
  moreover have "slice_bound (length xs) (int a + int m) = a + m"
    using assms by (simp add: slice_bound_def nat_add_distrib)
  ultimately show ?thesis
    by (simp add: py_slice_def Let_def)
qed

lemma replaced_range_nth:
  assumes "a + length ys \<le> length xs" "n < length xs"
  shows "(take a xs @ ys @ drop (a + length ys) xs) ! n =
           (if a \<le> n \<and> n < a + length ys then ys ! (n - a) else xs ! n)"
proof -
  consider "n < a" | "a \<le> n" "n < a + length ys" | "a + length ys \<le> n"
    by linarith
  then show ?thesis
  proof cases
    case 1
    with assms show ?thesis by (simp add: nth_append)
  next
    case 2
    then have "n - a < length ys" by linarith
    with 2 assms show ?thesis by (simp add: nth_append min_def)
  next
    case 3
    then have k: "\<not> n < a" "\<not> n - a < length ys" by linarith+
    have "drop (a + length ys) xs ! (n - a - length ys) = xs ! (a + length ys + (n - a - length ys))"
      using assms(1) by (intro nth_drop)
    also have "a + length ys + (n - a - length ys) = n"
      using 3 by simp
    finally have d: "drop (a + length ys) xs ! (n - a - length ys) = xs ! n" .
    have "(take a xs @ ys @ drop (a + length ys) xs) ! n =
        drop (a + length ys) xs ! (n - a - length ys)"
      using assms k by (simp add: nth_append min_def)
    with d 3 show ?thesis by simp
  qed
qed

text \<open>
  C8, as the code has it. For every buffer, \<open>set_payload\<close> with a byte count different from
  \<open>payload_size\<close> raises ValueError and leaves the buffer as it was. With a byte count
  equal to \<open>payload_size\<close>, on a buffer that holds the whole range
  \<open>[payload_offset, payload_offset + payload_size)\<close>, it returns, the length of the buffer
  is unchanged, every byte of the range is the corresponding byte supplied and every byte
  outside the range keeps its value.
\<close>

theorem set_payload_replaces_range:
  "(int (length payload) \<noteq> get_payload_size raw \<longrightarrow>
      set_payload raw payload = (Inl (ValueError ''Error''), raw))
   \<and> (int (length payload) = get_payload_size raw
       \<and> get_offset raw + get_payload_size raw \<le> int (length raw) \<longrightarrow>
      (\<exists>raw'. set_payload raw payload = (Inr (), raw')
         \<and> length raw' = length raw
         \<and> (\<forall>n < length raw.
               raw' ! n =
                 (if get_offset raw \<le> int n \<and> int n < get_offset raw + get_payload_size raw
                  then payload ! (n - nat (get_offset raw)) else raw ! n))
         \<and> py_slice raw' (get_offset raw) (get_offset raw + get_payload_size raw) = payload))"
proof -
  have bad: "int (length payload) \<noteq> get_payload_size raw \<longrightarrow>
      set_payload raw payload = (Inl (ValueError ''Error''), raw)"
    by (simp add: set_payload_def Let_def)
  have good: "int (length payload) = get_payload_size raw
       \<and> get_offset raw + get_payload_size raw \<le> int (length raw) \<longrightarrow>
      (\<exists>raw'. set_payload raw payload = (Inr (), raw')
         \<and> length raw' = length raw
         \<and> (\<forall>n < length raw.
               raw' ! n =
                 (if get_offset raw \<le> int n \<and> int n < get_offset raw + get_payload_size raw
                  then payload ! (n - nat (get_offset raw)) else raw ! n))
         \<and> py_slice raw' (get_offset raw) (get_offset raw + get_payload_size raw) = payload)"
  proof
    assume h: "int (length payload) = get_payload_size raw
       \<and> get_offset raw + get_payload_size raw \<le> int (length raw)"
    define a where "a = nat (get_offset raw)"
    define m where "m = length payload"
    define raw' where "raw' = take a raw @ payload @ drop (a + m) raw"
    have off: "get_offset raw = int a"
      using get_offset_range(1) [of raw] by (simp add: a_def)
    have sz: "get_payload_size raw = int m"
      using h by (simp add: m_def)
    have fit: "a + m \<le> length raw"
      using h off sz by linarith
    have res: "set_payload raw payload = (Inr (), raw')"
      using fit by (simp add: set_payload_def Let_def off sz py_slice_assign_inside raw'_def)
        (simp add: m_def)
    have len: "length raw' = length raw"
      using fit by (simp add: raw'_def m_def)
    have nth: "\<forall>n < length raw.
               raw' ! n =
                 (if get_offset raw \<le> int n \<and> int n < get_offset raw + get_payload_size raw
                  then payload ! (n - nat (get_offset raw)) else raw ! n)"
    proof (intro allI impI)
      fix n assume n: "n < length raw"
      have "raw' ! n = (if a \<le> n \<and> n < a + length payload then payload ! (n - a) else raw ! n)"
        unfolding raw'_def m_def
        using fit n by (intro replaced_range_nth) (simp_all add: m_def)
      moreover have "(get_offset raw \<le> int n \<and> int n < get_offset raw + get_payload_size raw)
          \<longleftrightarrow> (a \<le> n \<and> n < a + length payload)"
        unfolding off sz m_def by linarith
      ultimately show "raw' ! n =
                 (if get_offset raw \<le> int n \<and> int n < get_offset raw + get_payload_size raw
                  then payload ! (n - nat (get_offset raw)) else raw ! n)"
        by (simp add: a_def)
    qed
    have "a + m \<le> length raw'" using fit len by simp
    then have "py_slice raw' (int a) (int a + int m) = take m (drop a raw')"
      by (rule py_slice_inside)
    also have "\<dots> = payload"
      using fit by (simp add: raw'_def m_def min_def)
    finally have sl: "py_slice raw' (get_offset raw) (get_offset raw + get_payload_size raw)
        = payload"
      by (simp add: off sz)
    from res len nth sl show "\<exists>raw'. set_payload raw payload = (Inr (), raw')
         \<and> length raw' = length raw
         \<and> (\<forall>n < length raw.
               raw' ! n =
                 (if get_offset raw \<le> int n \<and> int n < get_offset raw + get_payload_size raw
                  then payload ! (n - nat (get_offset raw)) else raw ! n))
         \<and> py_slice raw' (get_offset raw) (get_offset raw + get_payload_size raw) = payload"
      by (intro exI [of _ raw'] conjI)
  qed
  from bad good show ?thesis by (rule conjI)
qed

theorem set_payload_replaces_range_witness:
  "set_payload bmp_1x1_24 [1, 2, 3] = (Inl (ValueError ''Error''), bmp_1x1_24)
   \<and> fst (set_payload bmp_1x1_24 [1, 2, 3, 4]) = Inr ()
   \<and> length (snd (set_payload bmp_1x1_24 [1, 2, 3, 4])) = length bmp_1x1_24
   \<and> py_slice (snd (set_payload bmp_1x1_24 [1, 2, 3, 4])) 54 58 = [1, 2, 3, 4]"
proof -
  have v: "get_payload_size bmp_1x1_24 = 4" "get_offset bmp_1x1_24 = 54"
    "length bmp_1x1_24 = 58"
    by code_simp+
  from set_payload_replaces_range [of "[1, 2, 3]" bmp_1x1_24]
  have a: "set_payload bmp_1x1_24 [1, 2, 3] = (Inl (ValueError ''Error''), bmp_1x1_24)"
    by (simp add: v)
  from set_payload_replaces_range [of "[1, 2, 3, 4]" bmp_1x1_24]
  obtain raw' where "set_payload bmp_1x1_24 [1, 2, 3, 4] = (Inr (), raw')"
    "length raw' = length bmp_1x1_24" "py_slice raw' 54 58 = [1, 2, 3, 4]"
    by (auto simp: v)
  with a show ?thesis by simp
qed

text \<open>
  The buffer cut after 40 bytes announces 4 payload bytes at offset 54. \<open>set_payload\<close>
  with 4 bytes returns; the bytes are appended at positions 40 to 43, the buffer grows to
  44 bytes, and the range at offset 54 still holds nothing.
\<close>

theorem set_payload_counterexample:
  "get_offset bmp_truncated = 54 \<and> get_payload_size bmp_truncated = 4
   \<and> length bmp_truncated = 40
   \<and> set_payload bmp_truncated [1, 2, 3, 4] = (Inr (), bmp_truncated @ [1, 2, 3, 4])
   \<and> get_payload (bmp_truncated @ [1, 2, 3, 4]) = []"
  by code_simp

section \<open>Calling a mutation twice\<close>






lemma bitmask_one_returns_narrow:
  assumes "bitmask_one sublayer offset raw = (Inr (), raw')"
  shows "sublayer < 8"
proof (rule ccontr)
  assume "\<not> sublayer < 8"
  then have w: "8 \<le> sublayer" by simp
  from bitmask_one_returns [OF assms] obtain k where
    "py_index (length raw) offset = Some k" by blast
  with w have "bitmask_one sublayer offset raw =
      (Inl (ValueError ''byte must be in range(0, 256)''), raw)"
    by (rule bitmask_one_too_wide)
  with assms show False by simp
qed

lemma set_one_returns:
  assumes "set_one raw i j layer sublayer = (Inr (), raw')"
  shows "\<exists>p k. check_sublayer raw sublayer = Inr () \<and> check_width raw i = Inr ()
           \<and> check_height raw j = Inr () \<and> check_layer raw layer = Inr ()
           \<and> get_pixel_offset raw i j = Inr p
           \<and> py_index (length raw) (p + layer) = Some k \<and> 0 \<le> sublayer
           \<and> sublayer < 8
           \<and> raw' = raw[k := raw ! k OR push_bit (nat sublayer) 1]"
proof -
  from assms have c: "check_sublayer raw sublayer = Inr ()"
    and a: "apply_bitmask raw i j layer (bitmask_one sublayer) = (Inr (), raw')"
    by (auto simp: set_one_def split: sum.splits)
  from a have w: "check_width raw i = Inr ()" and h: "check_height raw j = Inr ()"
    and l: "check_layer raw layer = Inr ()"
    by (auto simp: apply_bitmask_def Let_def split: sum.splits)
  from apply_bitmask_returns [OF a] obtain p where
    p: "get_pixel_offset raw i j = Inr p"
    and b: "bitmask_one sublayer (p + layer) raw = (Inr (), raw')"
    by blast
  from bitmask_one_returns [OF b] bitmask_one_returns_narrow [OF b] c w h l p
  show ?thesis by blast
qed

lemma set_zero_returns:
  assumes "set_zero raw i j layer sublayer = (Inr (), raw')"
  shows "\<exists>p k. check_sublayer raw sublayer = Inr () \<and> check_width raw i = Inr ()
           \<and> check_height raw j = Inr () \<and> check_layer raw layer = Inr ()
           \<and> get_pixel_offset raw i j = Inr p
           \<and> py_index (length raw) (p + layer) = Some k \<and> 0 \<le> sublayer
           \<and> raw' = raw[k := raw ! k AND NOT (push_bit (nat sublayer) 1)]"
proof -
  from assms have c: "check_sublayer raw sublayer = Inr ()"
    and a: "apply_bitmask raw i j layer (bitmask_zero sublayer) = (Inr (), raw')"
    by (auto simp: set_zero_def split: sum.splits)
  from a have w: "check_width raw i = Inr ()" and h: "check_height raw j = Inr ()"
    and l: "check_layer raw layer = Inr ()"
    by (auto simp: apply_bitmask_def Let_def split: sum.splits)
  from apply_bitmask_returns [OF a] obtain p where
    p: "get_pixel_offset raw i j = Inr p"
    and b: "bitmask_zero sublayer (p + layer) raw = (Inr (), raw')"
    by blast
  from bitmask_zero_returns [OF b] c w h l p show ?thesis by blast
qed









section \<open>What a mutation writes\<close>

lemma byte_or_mask_same:
  fixes x :: byte
  assumes "s < 8"
  shows "x OR 2 ^ s = x \<longleftrightarrow> bit x s"
proof
  assume "x OR 2 ^ s = x"
  then have "bit x s = bit (x OR 2 ^ s) s" by simp
  with assms show "bit x s" by (simp add: bit_byte_or_mask)
next
  assume b: "bit x s"
  show "x OR 2 ^ s = x"
    by (rule bit_word_eqI) (use b in \<open>auto simp: bit_byte_or_mask\<close>)
qed

lemma byte_and_mask_same:
  fixes x :: byte
  shows "x AND NOT (2 ^ s) = x \<longleftrightarrow> \<not> bit x s"
proof
  assume "x AND NOT (2 ^ s) = x"
  then have "bit x s = bit (x AND NOT (2 ^ s)) s" by simp
  then show "\<not> bit x s" by (simp add: bit_byte_and_mask)
next
  assume b: "\<not> bit x s"
  show "x AND NOT (2 ^ s) = x"
    by (rule bit_word_eqI) (use b in \<open>auto simp: bit_byte_and_mask\<close>)
qed

lemma set_one_written:
  assumes "set_one raw i j layer sublayer = (Inr (), raw')"
  shows "\<exists>k. target_index raw i j layer = Some k
           \<and> raw' = raw[k := raw ! k OR push_bit (nat sublayer) 1]
           \<and> only_byte_written k raw raw'
           \<and> (raw' = raw \<longleftrightarrow> bit (raw ! k) (nat sublayer))"
proof -
  from set_one_returns [OF assms] obtain p k where
    p: "get_pixel_offset raw i j = Inr p"
    and k: "py_index (length raw) (p + layer) = Some k"
    and s: "0 \<le> sublayer" "sublayer < 8"
    and r: "raw' = raw[k := raw ! k OR push_bit (nat sublayer) 1]"
    by blast
  have t: "target_index raw i j layer = Some k"
    using p k by (simp add: target_index_def)
  have kl: "k < length raw" using k by (rule py_index_less)
  have w: "only_byte_written k raw raw'"
    unfolding r using kl by (rule only_byte_written_update)
  have n: "nat sublayer < 8" using s by linarith
  have "raw' = raw \<longleftrightarrow> raw ! k OR 2 ^ nat sublayer = raw ! k"
    using kl by (auto simp: r list_update_same_conv)
  also have "\<dots> \<longleftrightarrow> bit (raw ! k) (nat sublayer)"
    using n by (rule byte_or_mask_same)
  finally have "raw' = raw \<longleftrightarrow> bit (raw ! k) (nat sublayer)" .
  with t r w show ?thesis by blast
qed

lemma set_zero_written:
  assumes "set_zero raw i j layer sublayer = (Inr (), raw')"
  shows "\<exists>k. target_index raw i j layer = Some k
           \<and> raw' = raw[k := raw ! k AND NOT (push_bit (nat sublayer) 1)]
           \<and> only_byte_written k raw raw'
           \<and> (raw' = raw \<longleftrightarrow> \<not> bit (raw ! k) (nat sublayer))"
proof -
  from set_zero_returns [OF assms] obtain p k where
    p: "get_pixel_offset raw i j = Inr p"
    and k: "py_index (length raw) (p + layer) = Some k"
    and r: "raw' = raw[k := raw ! k AND NOT (push_bit (nat sublayer) 1)]"
    by blast
  have t: "target_index raw i j layer = Some k"
    using p k by (simp add: target_index_def)
  have kl: "k < length raw" using k by (rule py_index_less)
  have w: "only_byte_written k raw raw'"
    unfolding r using kl by (rule only_byte_written_update)
  have "raw' = raw \<longleftrightarrow> raw ! k AND NOT (2 ^ nat sublayer) = raw ! k"
    using kl by (auto simp: r list_update_same_conv)
  also have "\<dots> \<longleftrightarrow> \<not> bit (raw ! k) (nat sublayer)"
    by (rule byte_and_mask_same)
  finally have "raw' = raw \<longleftrightarrow> \<not> bit (raw ! k) (nat sublayer)" .
  with t r w show ?thesis by blast
qed

lemma apply_bitmask_calls_closure:
  assumes "check_width raw i = Inr ()" "check_height raw j = Inr ()"
    "check_layer raw layer = Inr ()"
  shows "\<exists>p. get_pixel_offset raw i j = Inr p
           \<and> apply_bitmask raw i j layer bitmask = bitmask (p + layer) raw"
proof -
  have b: "0 \<le> i" "i < fst (get_size raw)" "0 \<le> j" "j < snd (get_size raw)"
    "layer < get_Bpp raw"
    using assms by (simp_all add: check_width_iff check_height_iff check_layer_iff)
  from b have "get_pixel_offset raw i j =
      Inr (get_offset raw + j * get_eff_rowsize raw + i * get_Bpp raw)"
    by (simp add: get_pixel_offset_in_bounds)
  moreover from b have "apply_bitmask raw i j layer bitmask =
      bitmask (get_offset raw + j * get_eff_rowsize raw + i * get_Bpp raw + layer) raw"
    by (rule apply_bitmask_accepted)
  ultimately show ?thesis by simp
qed

text \<open>
  C4, as the code has it. A call of \<open>set_one\<close> or \<open>set_zero\<close> that returns has stored one
  byte, the one that \<open>get_pixel_offset(i, j) + layer\<close> denotes, with the old byte ored
  with \<open>1 << sublayer\<close>, respectively with that bit cleared. The length of the buffer and
  every other byte, wherever it lies, are unchanged. The byte stored differs from the old
  one, so that exactly one byte of the buffer is modified, exactly when the bit did not
  have the requested value; otherwise the buffer is left as it was. \<open>apply_bitmask\<close> on
  accepted coordinates does what its closure does at that offset on the buffer, and when
  it returns, that closure has returned so; if the closure writes only the byte at the
  offset it is given, as the closures of \<open>set_one\<close> and \<open>set_zero\<close> do, the frame is the
  same. Whether they return or raise, \<open>set_one\<close> and \<open>set_zero\<close> leave the length of the
  buffer as it was.
\<close>

theorem mutation_writes_one_byte:
  "(set_one raw i j layer sublayer = (Inr (), raw') \<longrightarrow>
      (\<exists>k. target_index raw i j layer = Some k
         \<and> raw' = raw[k := raw ! k OR push_bit (nat sublayer) 1]
         \<and> only_byte_written k raw raw'
         \<and> (raw' = raw \<longleftrightarrow> bit (raw ! k) (nat sublayer))))
   \<and> (set_zero raw i j layer sublayer = (Inr (), raw') \<longrightarrow>
      (\<exists>k. target_index raw i j layer = Some k
         \<and> raw' = raw[k := raw ! k AND NOT (push_bit (nat sublayer) 1)]
         \<and> only_byte_written k raw raw'
         \<and> (raw' = raw \<longleftrightarrow> \<not> bit (raw ! k) (nat sublayer))))
   \<and> (check_width raw i = Inr () \<and> check_height raw j = Inr ()
        \<and> check_layer raw layer = Inr () \<longrightarrow>
      (\<exists>p. get_pixel_offset raw i j = Inr p
         \<and> apply_bitmask raw i j layer bitmask = bitmask (p + layer) raw))
   \<and> (apply_bitmask raw i j layer bitmask = (Inr (), raw') \<longrightarrow>
      (\<exists>p. get_pixel_offset raw i j = Inr p \<and> bitmask (p + layer) raw = (Inr (), raw')))
   \<and> (single_byte_bitmask bitmask \<and> apply_bitmask raw i j layer bitmask = (Inr (), raw') \<longrightarrow>
      (\<exists>k. target_index raw i j layer = Some k \<and> only_byte_written k raw raw'))
   \<and> single_byte_bitmask (bitmask_one sublayer)
   \<and> single_byte_bitmask (bitmask_zero sublayer)
   \<and> length (snd (set_one raw i j layer sublayer)) = length raw
   \<and> length (snd (set_zero raw i j layer sublayer)) = length raw"
proof -
  have one: "set_one raw i j layer sublayer = (Inr (), raw') \<longrightarrow>
      (\<exists>k. target_index raw i j layer = Some k
         \<and> raw' = raw[k := raw ! k OR push_bit (nat sublayer) 1]
         \<and> only_byte_written k raw raw'
         \<and> (raw' = raw \<longleftrightarrow> bit (raw ! k) (nat sublayer)))"
    using set_one_written [of raw i j layer sublayer raw'] by blast
  have zero: "set_zero raw i j layer sublayer = (Inr (), raw') \<longrightarrow>
      (\<exists>k. target_index raw i j layer = Some k
         \<and> raw' = raw[k := raw ! k AND NOT (push_bit (nat sublayer) 1)]
         \<and> only_byte_written k raw raw'
         \<and> (raw' = raw \<longleftrightarrow> \<not> bit (raw ! k) (nat sublayer)))"
    using set_zero_written [of raw i j layer sublayer raw'] by blast
  have call: "check_width raw i = Inr () \<and> check_height raw j = Inr ()
        \<and> check_layer raw layer = Inr () \<longrightarrow>
      (\<exists>p. get_pixel_offset raw i j = Inr p
         \<and> apply_bitmask raw i j layer bitmask = bitmask (p + layer) raw)"
    using apply_bitmask_calls_closure [of raw i j layer bitmask] by blast
  have ret: "apply_bitmask raw i j layer bitmask = (Inr (), raw') \<longrightarrow>
      (\<exists>p. get_pixel_offset raw i j = Inr p \<and> bitmask (p + layer) raw = (Inr (), raw'))"
    using apply_bitmask_returns [of raw i j layer bitmask raw'] by blast
  have frame: "single_byte_bitmask bitmask
        \<and> apply_bitmask raw i j layer bitmask = (Inr (), raw') \<longrightarrow>
      (\<exists>k. target_index raw i j layer = Some k \<and> only_byte_written k raw raw')"
    using apply_bitmask_frame [of bitmask raw i j layer raw'] by blast
  from one zero call ret frame
    single_byte_bitmask_one [of sublayer] single_byte_bitmask_zero [of sublayer]
    set_one_length [of raw i j layer sublayer] set_zero_length [of raw i j layer sublayer]
  show ?thesis by (intro conjI)
qed

theorem mutation_writes_one_byte_witness:
  "set_one bmp_1x1_24 0 0 2 7 = (Inr (), bmp_1x1_24[56 := 158])
   \<and> bmp_1x1_24 ! 56 = 30
   \<and> bmp_1x1_24[56 := 158] \<noteq> bmp_1x1_24
   \<and> length (bmp_1x1_24[56 := 158]) = length bmp_1x1_24
   \<and> bmp_1x1_24[56 := 158] ! 55 = bmp_1x1_24 ! 55
   \<and> set_zero bmp_1x1_24 0 0 2 1 = (Inr (), bmp_1x1_24[56 := 28])
   \<and> apply_bitmask bmp_1x1_24 0 0 2 (bitmask_one 7) = bitmask_one 7 56 bmp_1x1_24"
proof -
  have f: "fst (set_one bmp_1x1_24 0 0 2 7) = Inr ()" "fst (set_zero bmp_1x1_24 0 0 2 1) = Inr ()"
    by code_simp+
  then have h: "set_one bmp_1x1_24 0 0 2 7 = (Inr (), snd (set_one bmp_1x1_24 0 0 2 7))"
    "set_zero bmp_1x1_24 0 0 2 1 = (Inr (), snd (set_zero bmp_1x1_24 0 0 2 1))"
    by (metis prod.collapse)+
  have t: "target_index bmp_1x1_24 0 0 2 = Some 56" by code_simp
  have b: "bmp_1x1_24 ! 56 = 30" by code_simp
  have n: "length bmp_1x1_24 = 58" by code_simp
  have c: "check_width bmp_1x1_24 0 = Inr ()" "check_height bmp_1x1_24 0 = Inr ()"
    "check_layer bmp_1x1_24 2 = Inr ()" "get_pixel_offset bmp_1x1_24 0 0 = Inr 54"
    by code_simp+
  note w1 = mutation_writes_one_byte
    [of bmp_1x1_24 0 0 2 7 "snd (set_one bmp_1x1_24 0 0 2 7)" "bitmask_one 7"]
  note w0 = mutation_writes_one_byte
    [of bmp_1x1_24 0 0 2 1 "snd (set_zero bmp_1x1_24 0 0 2 1)" "bitmask_one 7"]
  from w1 h(1) t b have one: "snd (set_one bmp_1x1_24 0 0 2 7) = bmp_1x1_24[56 := 158]"
    "only_byte_written 56 bmp_1x1_24 (snd (set_one bmp_1x1_24 0 0 2 7))"
    "snd (set_one bmp_1x1_24 0 0 2 7) \<noteq> bmp_1x1_24"
    by auto
  from w0 h(2) t b have zero: "snd (set_zero bmp_1x1_24 0 0 2 1) = bmp_1x1_24[56 := 28]"
    by auto
  from w1 c have call:
    "apply_bitmask bmp_1x1_24 0 0 2 (bitmask_one 7) = bitmask_one 7 56 bmp_1x1_24"
    by auto
  from one zero call h b n show ?thesis
    by (simp add: only_byte_written_def)
qed

text \<open>
  On the 1x1 image of 24 bits per pixel byte 54 is 10: bit 1 is set and bit 0 is clear, so
  \<open>set_one(0, 0, 0, 1)\<close> and \<open>set_zero(0, 0, 0, 0)\<close> return and no byte of the buffer is
  modified. \<open>apply_bitmask\<close> with a closure that appends a byte returns with a buffer one
  byte longer. \<open>set_payload\<close> with 4 bytes on the buffer cut after 40 bytes returns with a
  buffer of 44 bytes.
\<close>

theorem mutation_counterexample:
  "bmp_1x1_24 ! 54 = 10
   \<and> set_one bmp_1x1_24 0 0 0 1 = (Inr (), bmp_1x1_24)
   \<and> set_zero bmp_1x1_24 0 0 0 0 = (Inr (), bmp_1x1_24)
   \<and> apply_bitmask bmp_1x1_24 0 0 0 (\<lambda>offset raw_image. (Inr (), raw_image @ [0]))
       = (Inr (), bmp_1x1_24 @ [0])
   \<and> length bmp_truncated = 40
   \<and> fst (set_payload bmp_truncated [1, 2, 3, 4]) = Inr ()
   \<and> length (snd (set_payload bmp_truncated [1, 2, 3, 4])) = 44"
  by code_simp

end
